theory Spec2Isabelle
  imports Complex_Main "HOL-Library.Word"
begin

section \<open>Python values carried by the handlers of \<^verbatim>\<open>game_cart/app.py\<close>\<close>

text \<open>
  The value \<^verbatim>\<open>request.get_json()\<close> returns is a parsed JSON document. A string is the
  list of its code points, which the type \<open>char\<close> limits to those below 256. A finite
  float is the exact rational it denotes; no arithmetic on floats is modelled. A dict is
  an association list read with \<open>map_of\<close>; a parsed body holds each key once.
\<close>

datatype pyfloat = Fin rat | NaN | PosInf | NegInf

datatype pynum = PInt int | PFloat pyfloat

datatype json =
    JNull
  | JBool bool
  | JNum pynum
  | JStr string
  | JList "json list"
  | JObj "(string \<times> json) list"

text \<open>Exceptions: the class (as far as the \<^verbatim>\<open>except\<close> clauses tell classes apart) and \<^verbatim>\<open>str(e)\<close>.\<close>

datatype exn_class =
  ValueError | TypeError | AttributeError | KeyError | OverflowError | HTTPException | OtherError

datatype exn = Exn exn_class string

fun exn_cls :: "exn \<Rightarrow> exn_class" where
  "exn_cls (Exn c m) = c"

fun str_exn :: "exn \<Rightarrow> string" where
  "str_exn (Exn c m) = m"

text \<open>Python's truth value of a JSON value (\<^verbatim>\<open>not x\<close> is its negation).\<close>

fun truthy :: "json \<Rightarrow> bool" where
  "truthy JNull = False"
| "truthy (JBool b) = b"
| "truthy (JNum (PInt n)) = (n \<noteq> 0)"
| "truthy (JNum (PFloat f)) = (f \<noteq> Fin 0)"
| "truthy (JStr s) = (s \<noteq> [])"
| "truthy (JList xs) = (xs \<noteq> [])"
| "truthy (JObj kvs) = (kvs \<noteq> [])"

fun type_name :: "json \<Rightarrow> string" where
  "type_name JNull = ''NoneType''"
| "type_name (JBool b) = ''bool''"
| "type_name (JNum (PInt n)) = ''int''"
| "type_name (JNum (PFloat f)) = ''float''"
| "type_name (JStr s) = ''str''"
| "type_name (JList xs) = ''list''"
| "type_name (JObj kvs) = ''dict''"

text \<open>\<^verbatim>\<open>data.get(k)\<close>: None for a missing key, AttributeError when \<^verbatim>\<open>data\<close> is no dict.\<close>

definition dict_get :: "json \<Rightarrow> string \<Rightarrow> exn + json" where
  "dict_get data k =
     (case data of
        JObj kvs \<Rightarrow> Inr (case map_of kvs k of None \<Rightarrow> JNull | Some v \<Rightarrow> v)
      | _ \<Rightarrow> Inl (Exn AttributeError
                 ([CHR 0x27] @ type_name data @ [CHR 0x27] @ '' object has no attribute '' @
                  [CHR 0x27] @ ''get'' @ [CHR 0x27])))"

subsection \<open>Responses\<close>

text \<open>
  What a handler hands to \<^verbatim>\<open>jsonify\<close>: a dict literal whose values are literals, values
  taken from the request, or an f-string with one hole (kept symbolic: prefix, value,
  suffix); or, at line 110, a set literal.
\<close>

datatype field = Lit json | FStr string json string

datatype payload = Dict "(string \<times> field) list" | SetLit "string list"

datatype response = Response payload nat

fun status :: "response \<Rightarrow> nat" where
  "status (Response b s) = s"

fun body :: "response \<Rightarrow> payload" where
  "body (Response b s) = b"

text \<open>\<^verbatim>\<open>jsonify\<close> serialises dicts; a set is not JSON serializable and raises TypeError.\<close>

definition jsonify :: "payload \<Rightarrow> exn + payload" where
  "jsonify p =
     (case p of
        Dict kvs \<Rightarrow> Inr p
      | SetLit xs \<Rightarrow> Inl (Exn TypeError ''Object of type set is not JSON serializable''))"

text \<open>\<^verbatim>\<open>make_response(jsonify(p), code)\<close>; Inl: the exception leaves the view function.\<close>

definition make_json_response :: "payload \<Rightarrow> nat \<Rightarrow> exn + response" where
  "make_json_response p code =
     (case jsonify p of Inl e \<Rightarrow> Inl e | Inr b \<Rightarrow> Inr (Response b code))"

definition error_body :: "string \<Rightarrow> payload" where
  "error_body m = Dict [(''error'', Lit (JStr m))]"

text \<open>
  The outcome of \<^verbatim>\<open>request.get_json()\<close>: the parsed document, or the HTTP exception
  Flask raises for a body that is not JSON (carrying its \<^verbatim>\<open>str\<close>).
\<close>

datatype request = BadRequest string | Json json

definition error_500 :: "exn \<Rightarrow> response" where
  "error_500 e = Response (error_body (str_exn e)) 500"

subsection \<open>POST /login (lines 75-110)\<close>

text \<open>
  \<^verbatim>\<open>k in data\<close> and \<^verbatim>\<open>data[k]\<close> for a string \<open>k\<close>: key membership and lookup on a
  dict, element membership on a list, substring test on a string, TypeError on the
  other values; indexing a list or a string with a string raises TypeError.
\<close>

fun is_substring :: "string \<Rightarrow> string \<Rightarrow> bool" where
  "is_substring k [] = (k = [])"
| "is_substring k (c # cs) = (take (length k) (c # cs) = k \<or> is_substring k cs)"

definition py_contains :: "json \<Rightarrow> string \<Rightarrow> exn + bool" where
  "py_contains data k =
     (case data of
        JObj kvs \<Rightarrow> Inr (k \<in> fst ` set kvs)
      | JList xs \<Rightarrow> Inr (JStr k \<in> set xs)
      | JStr s \<Rightarrow> Inr (is_substring k s)
      | _ \<Rightarrow> Inl (Exn TypeError
                 (''argument of type '' @ [CHR 0x27] @ type_name data @ [CHR 0x27] @
                  '' is not iterable'')))"

definition py_index :: "json \<Rightarrow> string \<Rightarrow> exn + json" where
  "py_index data k =
     (case data of
        JObj kvs \<Rightarrow>
          (case map_of kvs k of
             None \<Rightarrow> Inl (Exn KeyError ([CHR 0x27] @ k @ [CHR 0x27]))
           | Some v \<Rightarrow> Inr v)
      | JList xs \<Rightarrow> Inl (Exn TypeError ''list indices must be integers or slices, not str'')
      | JStr s \<Rightarrow> Inl (Exn TypeError ''string indices must be integers'')
      | _ \<Rightarrow> Inl (Exn TypeError
                 ([CHR 0x27] @ type_name data @ [CHR 0x27] @ '' object is not subscriptable'')))"

text \<open>
  The body of the \<^verbatim>\<open>try\<close> at lines 100-110. \<open>check_password\<close> is
  \<^verbatim>\<open>User.check_password\<close> on the current database (the model class is not part of
  the handler file): it returns a truth value or raises. The \<^verbatim>\<open>except\<close> branch builds
  its response from a set literal.
\<close>

definition login_checked ::
  "(json \<Rightarrow> json \<Rightarrow> exn + bool) \<Rightarrow> json \<Rightarrow> json \<Rightarrow> exn + response" where
  "login_checked check_password username password =
     (case check_password username password of
        Inr ok \<Rightarrow>
          (if \<not> ok then make_json_response (error_body ''Invalid username or password'') 401
           else make_json_response
                  (Dict [(''message'', FStr ''User '' username '' logged in successfully.'')]) 200)
      | Inl e \<Rightarrow> make_json_response (SetLit [''error'', ''An unexpected error occurred.'']) 500)"

text \<open>
  The whole handler. \<open>req\<close> is the outcome of \<^verbatim>\<open>request.get_json()\<close>, which is called
  outside the \<^verbatim>\<open>try\<close>: an exception raised there, or by the tests of line 93 or the
  lookups of lines 97-98, leaves the view function.
\<close>

definition login :: "(json \<Rightarrow> json \<Rightarrow> exn + bool) \<Rightarrow> request \<Rightarrow> exn + response" where
  "login check_password req =
     (case req of
        BadRequest m \<Rightarrow> Inl (Exn HTTPException m)
      | Json data \<Rightarrow>
          (if \<not> truthy data
           then make_json_response
                  (error_body ''Invalid input, both username and password are required'') 400
           else case py_contains data ''username'' of
             Inl e \<Rightarrow> Inl e
           | Inr has_u \<Rightarrow>
               (if \<not> has_u
                then make_json_response
                       (error_body ''Invalid input, both username and password are required'') 400
                else case py_contains data ''password'' of
                  Inl e \<Rightarrow> Inl e
                | Inr has_p \<Rightarrow>
                    (if \<not> has_p
                     then make_json_response
                            (error_body ''Invalid input, both username and password are required'')
                            400
                     else case py_index data ''username'' of
                       Inl e \<Rightarrow> Inl e
                     | Inr username \<Rightarrow>
                         (case py_index data ''password'' of
                            Inl e \<Rightarrow> Inl e
                          | Inr password \<Rightarrow> login_checked check_password username password)))))"

subsection \<open>POST /create-account (lines 57-73) and POST /update-password (lines 130-149)\<close>

text \<open>
  \<open>User_create_user\<close> and \<open>User_update_password\<close> stand for the methods of the model
  class, as functions of the database: they return the new database or raise. A handler
  returns its response and the database it leaves behind; a raising store call leaves
  the database as it was.
\<close>

definition create_user ::
  "('db \<Rightarrow> json \<Rightarrow> json \<Rightarrow> exn + 'db) \<Rightarrow> 'db \<Rightarrow> request \<Rightarrow> response \<times> 'db" where
  "create_user User_create_user db req =
     (case req of
        BadRequest m \<Rightarrow> (error_500 (Exn HTTPException m), db)
      | Json data \<Rightarrow>
          (case dict_get data ''username'' of
             Inl e \<Rightarrow> (error_500 e, db)
           | Inr username \<Rightarrow>
               (case dict_get data ''password'' of
                  Inl e \<Rightarrow> (error_500 e, db)
                | Inr password \<Rightarrow>
                    (if \<not> truthy username \<or> \<not> truthy password
                     then (Response
                             (error_body ''Invalid input, both username and password are required'')
                             400, db)
                     else case User_create_user db username password of
                       Inl e \<Rightarrow> (error_500 e, db)
                     | Inr db' \<Rightarrow>
                         (Response (Dict [(''status'', Lit (JStr ''user added'')),
                                          (''username'', Lit username)]) 201, db')))))"

text \<open>
  \<^verbatim>\<open>except ValueError\<close> comes first: class \<open>ValueError\<close> stands for ValueError and its
  subclasses. Only the store call can raise it here.
\<close>

definition update_password ::
  "('db \<Rightarrow> json \<Rightarrow> json \<Rightarrow> exn + 'db) \<Rightarrow> 'db \<Rightarrow> request \<Rightarrow> response \<times> 'db" where
  "update_password User_update_password db req =
     (case req of
        BadRequest m \<Rightarrow> (error_500 (Exn HTTPException m), db)
      | Json data \<Rightarrow>
          (case dict_get data ''username'' of
             Inl e \<Rightarrow> (error_500 e, db)
           | Inr username \<Rightarrow>
               (case dict_get data ''newPassword'' of
                  Inl e \<Rightarrow> (error_500 e, db)
                | Inr new_password \<Rightarrow>
                    (if \<not> truthy username \<or> \<not> truthy new_password
                     then (Response
                             (error_body
                                ''Invalid input, both username and new password are required'')
                             400, db)
                     else case User_update_password db username new_password of
                       Inl e \<Rightarrow>
                         (if exn_cls e = ValueError
                          then (Response
                                  (Dict [(''error'', FStr ''user '' username '' does not exist'')])
                                  401, db)
                          else (error_500 e, db))
                     | Inr db' \<Rightarrow>
                         (Response (Dict [(''status'', Lit (JStr ''password changed'')),
                                          (''username'', Lit username)]) 201, db')))))"

subsection \<open>The built-in \<^verbatim>\<open>int()\<close> and the decimal text of an integer\<close>

fun str_of_nat :: "nat \<Rightarrow> string" where
  "str_of_nat n =
     (if n < 10 then [''0123456789'' ! n]
      else str_of_nat (n div 10) @ [''0123456789'' ! (n mod 10)])"

declare str_of_nat.simps [simp del]

definition str_of_int :: "int \<Rightarrow> string" where
  "str_of_int i = (if i < 0 then CHR ''-'' # str_of_nat (nat (- i)) else str_of_nat (nat i))"

text \<open>
  \<^verbatim>\<open>repr\<close> of a string: quoted (with double quotes when the string holds a single quote
  and no double quote), the quote and the backslash escaped, tab, newline and return
  written \<^verbatim>\<open>\t\<close>, \<^verbatim>\<open>\n\<close>, \<^verbatim>\<open>\r\<close>, and every other unprintable code point written
  \<^verbatim>\<open>\xhh\<close>. Below 256 the unprintable code points are 0 to 31, 127 to 160 and 173.
\<close>

definition is_printable :: "char \<Rightarrow> bool" where
  "is_printable c =
     (let n = (of_char c :: nat) in (32 \<le> n \<and> n < 127) \<or> (161 \<le> n \<and> n \<noteq> 173))"

definition hex2 :: "nat \<Rightarrow> string" where
  "hex2 n = [''0123456789abcdef'' ! (n div 16), ''0123456789abcdef'' ! (n mod 16)]"

definition repr_char :: "char \<Rightarrow> char \<Rightarrow> string" where
  "repr_char q c =
     (if c = q \<or> c = CHR 0x5C then [CHR 0x5C, c]
      else if c = CHR 0x09 then [CHR 0x5C, CHR ''t'']
      else if c = CHR 0x0A then [CHR 0x5C, CHR ''n'']
      else if c = CHR 0x0D then [CHR 0x5C, CHR ''r'']
      else if \<not> is_printable c then [CHR 0x5C, CHR ''x''] @ hex2 (of_char c)
      else [c])"

definition py_repr :: "string \<Rightarrow> string" where
  "py_repr s =
     (let q = (if CHR 0x27 \<in> set s \<and> CHR 0x22 \<notin> set s then CHR 0x22 else CHR 0x27)
      in [q] @ concat (map (repr_char q) s) @ [q])"

text \<open>
  \<^verbatim>\<open>int(s)\<close> for a string, base 10. The whitespace it skips before and after the
  number: tab, newline, vertical tab, form feed, return, space and, of the code points
  from 127 to 255, next line (0x85) and no-break space (0xA0). The separators 0x1C to
  0x1F are not skipped.
\<close>

definition is_int_space :: "char \<Rightarrow> bool" where
  "is_int_space c =
     (c \<in> set [CHR 0x09, CHR 0x0A, CHR 0x0B, CHR 0x0C, CHR 0x0D, CHR 0x20, CHR 0x85, CHR 0xA0])"

definition digit_of :: "char \<Rightarrow> nat option" where
  "digit_of =
     map_of [(CHR ''0'', 0), (CHR ''1'', 1), (CHR ''2'', 2), (CHR ''3'', 3), (CHR ''4'', 4),
             (CHR ''5'', 5), (CHR ''6'', 6), (CHR ''7'', 7), (CHR ''8'', 8), (CHR ''9'', 9)]"

definition is_digit_or_underscore :: "char \<Rightarrow> bool" where
  "is_digit_or_underscore c = (c = CHR ''_'' \<or> digit_of c \<noteq> None)"

text \<open>
  The run of digits and underscores: its value and its number of digits. An underscore
  is allowed between two digits only. \<open>prev\<close>: the character before was a digit.
\<close>

fun digits_val :: "string \<Rightarrow> nat \<Rightarrow> nat \<Rightarrow> bool \<Rightarrow> (nat \<times> nat) option" where
  "digits_val [] acc cnt prev = (if prev then Some (acc, cnt) else None)"
| "digits_val (c # cs) acc cnt prev =
     (if c = CHR ''_'' then (if prev then digits_val cs acc cnt False else None)
      else case digit_of c of
        None \<Rightarrow> None
      | Some d \<Rightarrow> digits_val cs (10 * acc + d) (Suc cnt) True)"

text \<open>
  After the leading whitespace and one optional sign comes the run of digits and
  underscores; a run of more than 4300 digits is refused (the interpreter's default
  limit); what follows the run must be whitespace. Every failure is a ValueError; the
  text of an invalid literal shows at most 200 characters of the \<^verbatim>\<open>repr\<close>.
\<close>

definition invalid_literal :: "string \<Rightarrow> exn" where
  "invalid_literal s =
     Exn ValueError (''invalid literal for int() with base 10: '' @ take 200 (py_repr s))"

definition exceeds_limit :: "nat \<Rightarrow> exn" where
  "exceeds_limit cnt =
     Exn ValueError
       (''Exceeds the limit (4300 digits) for integer string conversion: value has '' @
        str_of_nat cnt @ '' digits; use sys.set_int_max_str_digits() to increase the limit'')"

definition int_of_str :: "string \<Rightarrow> exn + int" where
  "int_of_str s =
     (let t = dropWhile is_int_space s;
          neg = (t \<noteq> [] \<and> hd t = CHR ''-'');
          u = (if t \<noteq> [] \<and> (hd t = CHR ''-'' \<or> hd t = CHR ''+'') then tl t else t);
          run = takeWhile is_digit_or_underscore u;
          rest = dropWhile is_digit_or_underscore u
      in case digits_val run 0 0 False of
           None \<Rightarrow> Inl (invalid_literal s)
         | Some (n, cnt) \<Rightarrow>
             (if 4300 < cnt then Inl (exceeds_limit cnt)
              else if dropWhile is_int_space rest \<noteq> [] then Inl (invalid_literal s)
              else Inr (if neg then - int n else int n)))"

text \<open>A float is truncated towards zero.\<close>

definition py_trunc :: "rat \<Rightarrow> int" where
  "py_trunc q = (if 0 \<le> q then \<lfloor>q\<rfloor> else \<lceil>q\<rceil>)"

fun py_int :: "json \<Rightarrow> exn + int" where
  "py_int (JNum (PInt n)) = Inr n"
| "py_int (JBool b) = Inr (if b then 1 else 0)"
| "py_int (JNum (PFloat (Fin q))) = Inr (py_trunc q)"
| "py_int (JNum (PFloat NaN)) = Inl (Exn ValueError ''cannot convert float NaN to integer'')"
| "py_int (JNum (PFloat PosInf)) =
     Inl (Exn OverflowError ''cannot convert float infinity to integer'')"
| "py_int (JNum (PFloat NegInf)) =
     Inl (Exn OverflowError ''cannot convert float infinity to integer'')"
| "py_int (JStr s) = int_of_str s"
| "py_int v =
     Inl (Exn TypeError
            (''int() argument must be a string, a bytes-like object or a real number, not '' @
             [CHR 0x27] @ type_name v @ [CHR 0x27]))"

subsection \<open>Game cart routes (lines 157-313)\<close>

text \<open>
  \<open>search_for_games\<close> and \<open>get_game_info\<close> are the catalog client, \<open>Games_create_game\<close>,
  \<open>Games_delete_game\<close> and \<open>Games_get_all_games\<close> the methods of the model class, as
  functions of the database.
\<close>

definition search_games :: "(string \<Rightarrow> exn + json) \<Rightarrow> string \<Rightarrow> response" where
  "search_games search_for_games keyword =
     (case search_for_games keyword of
        Inr games \<Rightarrow> Response (Dict [(''games'', Lit games)]) 200
      | Inl e \<Rightarrow> error_500 e)"

text \<open>The body of the \<^verbatim>\<open>try\<close> of \<^verbatim>\<open>add_game\<close> (lines 198-219); Inl: an exception is raised.\<close>

definition add_game_try ::
  "(int \<Rightarrow> exn + json) \<Rightarrow> ('db \<Rightarrow> json \<Rightarrow> json \<Rightarrow> json \<Rightarrow> exn + 'db) \<Rightarrow> 'db \<Rightarrow> request \<Rightarrow>
   exn + response \<times> 'db" where
  "add_game_try get_game_info Games_create_game db req =
     (case req of
        BadRequest m \<Rightarrow> Inl (Exn HTTPException m)
      | Json data \<Rightarrow>
          (case dict_get data ''id'' of
             Inl e \<Rightarrow> Inl e
           | Inr v \<Rightarrow>
               (if \<not> truthy v then Inl (Exn ValueError ''An id must be specified.'')
                else case py_int v of
                  Inl e \<Rightarrow> Inl e
                | Inr n \<Rightarrow>
                    (case get_game_info n of
                       Inl e \<Rightarrow> Inl e
                     | Inr info \<Rightarrow>
                         (if info = JObj []
                          then Inr (Response
                                      (error_body (''id '' @ str_of_int n @
                                                   '' does not correspond to a game''))
                                      404, db)
                          else case py_index info ''id'' of
                            Inl e \<Rightarrow> Inl e
                          | Inr game_id \<Rightarrow>
                              (case py_index info ''name'' of
                                 Inl e \<Rightarrow> Inl e
                               | Inr name \<Rightarrow>
                                   (case py_index info ''price'' of
                                      Inl e \<Rightarrow> Inl e
                                    | Inr price \<Rightarrow>
                                        (case Games_create_game db game_id name price of
                                           Inl e \<Rightarrow> Inl e
                                         | Inr db' \<Rightarrow>
                                             Inr (Response
                                                    (Dict [(''status'', Lit (JStr ''game added'')),
                                                           (''game'', Lit name)])
                                                    201, db')))))))))"

definition add_game ::
  "(int \<Rightarrow> exn + json) \<Rightarrow> ('db \<Rightarrow> json \<Rightarrow> json \<Rightarrow> json \<Rightarrow> exn + 'db) \<Rightarrow> 'db \<Rightarrow> request \<Rightarrow>
   response \<times> 'db" where
  "add_game get_game_info Games_create_game db req =
     (case add_game_try get_game_info Games_create_game db req of
        Inr r \<Rightarrow> r
      | Inl e \<Rightarrow>
          (if exn_cls e = ValueError then (Response (error_body (str_exn e)) 400, db)
           else (error_500 e, db)))"

text \<open>
  \<^verbatim>\<open>delete_game\<close> (lines 245-269). The \<^verbatim>\<open>except ValueError\<close> branch compares
  \<^verbatim>\<open>str(e)\<close> with \<^verbatim>\<open>f"Game with id {id} not found"\<close>. For the ValueError of line 251
  and for those of \<^verbatim>\<open>int\<close> the comparison is false, because these messages begin
  with \<open>A\<close>, \<open>i\<close>, \<open>c\<close> or \<open>E\<close> and the f-string with \<open>G\<close>; after the conversion \<^verbatim>\<open>id\<close> is the
  integer, whose text is \<open>str_of_int\<close>.
\<close>

definition delete_game ::
  "('db \<Rightarrow> int \<Rightarrow> exn + 'db) \<Rightarrow> 'db \<Rightarrow> request \<Rightarrow> response \<times> 'db" where
  "delete_game Games_delete_game db req =
     (case req of
        BadRequest m \<Rightarrow> (error_500 (Exn HTTPException m), db)
      | Json data \<Rightarrow>
          (case dict_get data ''id'' of
             Inl e \<Rightarrow> (error_500 e, db)
           | Inr v \<Rightarrow>
               (if \<not> truthy v then (Response (error_body ''An id must be specified.'') 400, db)
                else case py_int v of
                  Inl e \<Rightarrow>
                    (if exn_cls e = ValueError then (Response (error_body (str_exn e)) 400, db)
                     else (error_500 e, db))
                | Inr n \<Rightarrow>
                    (case Games_delete_game db n of
                       Inl e \<Rightarrow>
                         (if exn_cls e = ValueError
                          then (if str_exn e = ''Game with id '' @ str_of_int n @ '' not found''
                                then (Response (error_body (str_exn e)) 404, db)
                                else (Response (error_body (str_exn e)) 400, db))
                          else (error_500 e, db))
                     | Inr db' \<Rightarrow>
                         (Response (Dict [(''status'', Lit (JStr ''game deleted''))]) 200, db')))))"

definition get_games :: "exn + json \<Rightarrow> response" where
  "get_games all_games =
     (case all_games of
        Inr games \<Rightarrow> Response (Dict [(''games'', Lit games)]) 200
      | Inl e \<Rightarrow> error_500 e)"

text \<open>The numbers \<open>+\<close> accepts among JSON values (a bool counts as 0 or 1).\<close>

fun num_of :: "json \<Rightarrow> pynum option" where
  "num_of (JNum n) = Some n"
| "num_of (JBool b) = Some (PInt (if b then 1 else 0))"
| "num_of v = None"

text \<open>
  An int that has no float: converting it raises OverflowError. These are the ints
  that round to 2 ^ 1024 or beyond.
\<close>

definition too_large_for_float :: "int \<Rightarrow> bool" where
  "too_large_for_float n = (2 ^ 1024 - 2 ^ 970 \<le> \<bar>n\<bar>)"

text \<open>
  \<^verbatim>\<open>sum(xs)\<close> starts from the int 0 and adds from the left. The accumulator is an int
  (\<open>Some n\<close>, kept exactly) as long as only ints were added and a float (\<open>None\<close>) from the
  first float on. Adding a value that is no number raises TypeError; adding an int and
  a float converts the int, which raises OverflowError when it is too large.
\<close>

fun sum_acc :: "int option \<Rightarrow> json list \<Rightarrow> exn + int option" where
  "sum_acc acc [] = Inr acc"
| "sum_acc acc (x # xs) =
     (case num_of x of
        None \<Rightarrow>
          Inl (Exn TypeError
                 (''unsupported operand type(s) for +: '' @ [CHR 0x27] @
                  (case acc of Some n \<Rightarrow> ''int'' | None \<Rightarrow> ''float'') @
                  [CHR 0x27] @ '' and '' @ [CHR 0x27] @ type_name x @ [CHR 0x27]))
      | Some (PInt k) \<Rightarrow>
          (case acc of
             Some n \<Rightarrow> sum_acc (Some (n + k)) xs
           | None \<Rightarrow>
               (if too_large_for_float k
                then Inl (Exn OverflowError ''int too large to convert to float'')
                else sum_acc None xs))
      | Some (PFloat f) \<Rightarrow>
          (case acc of
             Some n \<Rightarrow>
               (if too_large_for_float n
                then Inl (Exn OverflowError ''int too large to convert to float'')
                else sum_acc None xs)
           | None \<Rightarrow> sum_acc None xs))"

text \<open>
  The value of a sum that involves a float depends on the rounding of every addition
  and on the interpreter's summation algorithm, which are not modelled: it is the
  parameter \<open>fsum\<close>, the float the interpreter arrives at for these values in this
  order. A sum of ints is exact.
\<close>

definition py_sum :: "(json list \<Rightarrow> pyfloat) \<Rightarrow> json list \<Rightarrow> exn + pynum" where
  "py_sum fsum xs =
     (case sum_acc (Some 0) xs of
        Inl e \<Rightarrow> Inl e
      | Inr (Some n) \<Rightarrow> Inr (PInt n)
      | Inr None \<Rightarrow> Inr (PFloat (fsum xs)))"

text \<open>The list comprehension of line 308: \<^verbatim>\<open>game["price"]\<close> for each game, in order.\<close>

fun prices_of :: "json list \<Rightarrow> exn + json list" where
  "prices_of [] = Inr []"
| "prices_of (g # gs) =
     (case py_index g ''price'' of
        Inl e \<Rightarrow> Inl e
      | Inr p \<Rightarrow> (case prices_of gs of Inl e \<Rightarrow> Inl e | Inr ps \<Rightarrow> Inr (p # ps)))"

definition get_total_price :: "(json list \<Rightarrow> pyfloat) \<Rightarrow> exn + json list \<Rightarrow> response" where
  "get_total_price fsum all_games =
     (case all_games of
        Inl e \<Rightarrow> error_500 e
      | Inr games \<Rightarrow>
          (case prices_of games of
             Inl e \<Rightarrow> error_500 e
           | Inr ps \<Rightarrow>
               (case py_sum fsum ps of
                  Inl e \<Rightarrow> error_500 e
                | Inr price \<Rightarrow> Response (Dict [(''price'', Lit (JNum price))]) 200)))"

section \<open>The stores, from the specification\<close>

text \<open>
  The model classes \<^verbatim>\<open>User\<close> and \<^verbatim>\<open>Games\<close> are imported by the handler file and not
  part of it. They are modelled from sections 4.1 to 4.3 of the specification.
\<close>

subsection \<open>Account store\<close>

text \<open>
  Modelled from the spec: \<^verbatim>\<open>hash_password\<close> of the password module is the parameter
  \<open>H\<close>, a deterministic function of password and salt into digests; the salt that
  \<^verbatim>\<open>generate_salt\<close> draws is the parameter \<open>s\<close>. A user row holds salt and digest.
\<close>

type_synonym ('s, 'h) users = "string \<rightharpoonup> 's \<times> 'h"

definition verify_password :: "(string \<Rightarrow> 's \<Rightarrow> 'h) \<Rightarrow> string \<Rightarrow> 's \<Rightarrow> 'h \<Rightarrow> bool" where
  "verify_password H password s expected = (H password s = expected)"

text \<open>
  Modelled from the spec: \<^verbatim>\<open>User.create_user\<close>, which fails with DuplicateUser for a
  username that exists and with InvalidInput for an empty username or password.
  The spec does not give \<^verbatim>\<open>str(e)\<close> of a store failure: the model uses the spec's
  name of the failure.
\<close>

definition User_create_user ::
  "(string \<Rightarrow> 's \<Rightarrow> 'h) \<Rightarrow> 's \<Rightarrow> ('s, 'h) users \<Rightarrow> string \<Rightarrow> string \<Rightarrow> exn + ('s, 'h) users" where
  "User_create_user H s users username password =
     (if users username \<noteq> None then Inl (Exn OtherError ''DuplicateUser'')
      else if username = [] \<or> password = [] then Inl (Exn ValueError ''InvalidInput'')
      else Inr (users(username \<mapsto> (s, H password s))))"

text \<open>
  Modelled from the spec: \<^verbatim>\<open>User.check_password\<close>, which fails with UserNotFound when
  the username does not exist. The handlers treat a missing user as a ValueError
  (line 144).
\<close>

definition User_check_password ::
  "(string \<Rightarrow> 's \<Rightarrow> 'h) \<Rightarrow> ('s, 'h) users \<Rightarrow> string \<Rightarrow> string \<Rightarrow> exn + bool" where
  "User_check_password H users username password =
     (case users username of
        None \<Rightarrow> Inl (Exn ValueError ''UserNotFound'')
      | Some (s, h) \<Rightarrow> Inr (verify_password H password s h))"

text \<open>Modelled from the spec: \<^verbatim>\<open>User.update_password\<close>, with a fresh salt \<open>s\<close>.\<close>

definition User_update_password ::
  "(string \<Rightarrow> 's \<Rightarrow> 'h) \<Rightarrow> 's \<Rightarrow> ('s, 'h) users \<Rightarrow> string \<Rightarrow> string \<Rightarrow> exn + ('s, 'h) users" where
  "User_update_password H s users username new_password =
     (case users username of
        None \<Rightarrow> Inl (Exn ValueError ''UserNotFound'')
      | Some old \<Rightarrow> Inr (users(username \<mapsto> (s, H new_password s))))"

text \<open>
  The store methods as the handlers call them, on the values of the request. The spec
  gives them string arguments only; on another value the model raises TypeError.
\<close>

definition on_strings :: "(string \<Rightarrow> string \<Rightarrow> exn + 'a) \<Rightarrow> json \<Rightarrow> json \<Rightarrow> exn + 'a" where
  "on_strings f u p =
     (case (u, p) of
        (JStr a, JStr b) \<Rightarrow> f a b
      | _ \<Rightarrow> Inl (Exn TypeError ''expected str''))"

subsection \<open>Cart store\<close>

record game =
  game_id :: int
  game_name :: string
  game_price :: pynum

text \<open>The cart: the rows of the games table, in insertion order.\<close>

type_synonym cart = "game list"

fun is_negative :: "pynum \<Rightarrow> bool" where
  "is_negative (PInt n) = (n < 0)"
| "is_negative (PFloat (Fin q)) = (q < 0)"
| "is_negative (PFloat NegInf) = True"
| "is_negative (PFloat f) = False"

text \<open>
  Modelled from the spec: \<^verbatim>\<open>Games.create_game\<close>, which fails with InvalidInput for a
  negative price or an id that is not positive, and (the policy the spec recommends)
  with DuplicateGame for an id that is in the cart.
\<close>

definition Games_create_game :: "cart \<Rightarrow> int \<Rightarrow> string \<Rightarrow> pynum \<Rightarrow> exn + cart" where
  "Games_create_game c i n p =
     (if is_negative p \<or> i \<le> 0 then Inl (Exn ValueError ''InvalidInput'')
      else if i \<in> game_id ` set c then Inl (Exn OtherError ''DuplicateGame'')
      else Inr (c @ [\<lparr>game_id = i, game_name = n, game_price = p\<rparr>]))"

text \<open>
  Modelled from the spec: \<^verbatim>\<open>Games.delete_game\<close>, which fails with GameNotFound when
  no row has the id. The failure is a ValueError (the generic value error of section 9
  of the spec); the spec does not give its text, which is the parameter \<open>not_found\<close>,
  a function of the id.
\<close>

definition Games_delete_game :: "(int \<Rightarrow> string) \<Rightarrow> cart \<Rightarrow> int \<Rightarrow> exn + cart" where
  "Games_delete_game not_found c i =
     (if i \<notin> game_id ` set c then Inl (Exn ValueError (not_found i))
      else Inr (filter (\<lambda>g. game_id g \<noteq> i) c))"

text \<open>\<^verbatim>\<open>Games.create_game\<close> on the values the handler reads from the catalog entry.\<close>

definition Games_create_game_py :: "cart \<Rightarrow> json \<Rightarrow> json \<Rightarrow> json \<Rightarrow> exn + cart" where
  "Games_create_game_py c i n p =
     (case (i, n, p) of
        (JNum (PInt i'), JStr n', JNum p') \<Rightarrow> Games_create_game c i' n' p'
      | _ \<Rightarrow> Inl (Exn TypeError ''expected int, str and number''))"

text \<open>
  The public interface to the cart: a sequence of POST /add-game and DELETE /delete-game
  requests, each add with the catalog as it answers at that moment, run from a cart.
\<close>

datatype call = AddGame "int \<Rightarrow> exn + json" request | DeleteGame request

fun run_calls :: "(int \<Rightarrow> string) \<Rightarrow> cart \<Rightarrow> call list \<Rightarrow> cart" where
  "run_calls not_found c [] = c"
| "run_calls not_found c (AddGame g req # cs) =
     run_calls not_found (snd (add_game g Games_create_game_py c req)) cs"
| "run_calls not_found c (DeleteGame req # cs) =
     run_calls not_found (snd (delete_game (Games_delete_game not_found) c req)) cs"

section \<open>Properties\<close>

lemma make_json_response_Dict [simp]:
  "make_json_response (Dict kvs) code = Inr (Response (Dict kvs) code)"
  by (simp add: make_json_response_def jsonify_def)

lemma make_json_response_SetLit [simp]:
  "make_json_response (SetLit xs) code =
     Inl (Exn TypeError ''Object of type set is not JSON serializable'')"
  by (simp add: make_json_response_def jsonify_def)

lemma login_on_object:
  assumes "map_of kvs ''username'' = Some u" and "map_of kvs ''password'' = Some p"
  shows "login chk (Json (JObj kvs)) = login_checked chk u p"
proof -
  have ne: "kvs \<noteq> []" using assms(1) by auto
  have hu: "''username'' \<in> fst ` set kvs"
    using assms(1) by (metis domI dom_map_of_conv_image_fst)
  have hp: "''password'' \<in> fst ` set kvs"
    using assms(2) by (metis domI dom_map_of_conv_image_fst)
  show ?thesis
    using ne hu hp assms by (simp add: login_def py_contains_def py_index_def)
qed

text \<open>
  C8. Whenever \<^verbatim>\<open>User.check_password\<close> raises during a POST /login request that carries
  both keys, the handler's 500 branch hands a set literal to the JSON serializer: no
  response is produced at all (in particular none with status 500 and the documented
  error body); building the response raises TypeError, which leaves the handler.
\<close>

theorem login_500_branch_fails:
  assumes "map_of kvs ''username'' = Some u"
    and "map_of kvs ''password'' = Some p"
    and "check_password u p = Inl e"
  shows "login check_password (Json (JObj kvs)) =
           Inl (Exn TypeError ''Object of type set is not JSON serializable'')
         \<and> (\<forall>r. login check_password (Json (JObj kvs)) \<noteq> Inr r)"
  using assms by (simp add: login_on_object login_checked_def)

theorem login_500_branch_fails_witness:
  "login (\<lambda>u p. Inl (Exn OtherError ''database is locked''))
         (Json (JObj [(''username'', JStr ''alice''), (''password'', JStr ''pw1'')])) =
     Inl (Exn TypeError ''Object of type set is not JSON serializable'')"
  using login_500_branch_fails
    [of "[(''username'', JStr ''alice''), (''password'', JStr ''pw1'')]" "JStr ''alice''"
        "JStr ''pw1''" "\<lambda>u p. Inl (Exn OtherError ''database is locked'')"
        "Exn OtherError ''database is locked''"]
  by simp

subsection \<open>Login for a username that does not exist\<close>

text \<open>
  C5. With the account store of the specification, whose \<^verbatim>\<open>check_password\<close> fails with
  UserNotFound, a login for a username that does not exist is not answered 401: the
  failure reaches the \<^verbatim>\<open>except\<close> branch of line 108 and no response is built. A login
  for an existing user with a wrong password is answered 401 (unless the wrong
  password collides with the right one). The two failure causes are observably
  different.
\<close>

theorem login_unknown_user_not_401:
  "\<forall>(H :: string \<Rightarrow> 128 word \<Rightarrow> 256 word) s.
     login (on_strings (User_check_password H Map.empty))
       (Json (JObj [(''username'', JStr ''ghost''), (''password'', JStr ''x'')])) =
       Inl (Exn TypeError ''Object of type set is not JSON serializable'')
     \<and> login (on_strings (User_check_password H [''alice'' \<mapsto> (s, H ''pw1'' s)]))
         (Json (JObj [(''username'', JStr ''alice''), (''password'', JStr ''wrong'')])) =
         (if H ''wrong'' s = H ''pw1'' s
          then Inr (Response (Dict [(''message'',
                      FStr ''User '' (JStr ''alice'') '' logged in successfully.'')]) 200)
          else Inr (Response (error_body ''Invalid username or password'') 401))"
  by (simp add: login_on_object login_checked_def on_strings_def User_check_password_def
      verify_password_def error_body_def)

subsection \<open>POST /update-password\<close>

lemma update_password_fields:
  assumes "dict_get (JObj kvs) ''username'' = Inr un"
    and "dict_get (JObj kvs) ''newPassword'' = Inr np"
  shows "update_password upd db (Json (JObj kvs)) =
     (if \<not> truthy un \<or> \<not> truthy np
      then (Response (error_body ''Invalid input, both username and new password are required'')
              400, db)
      else case upd db un np of
        Inl e \<Rightarrow>
          (if exn_cls e = ValueError
           then (Response (Dict [(''error'', FStr ''user '' un '' does not exist'')]) 401, db)
           else (error_500 e, db))
      | Inr db' \<Rightarrow>
          (Response (Dict [(''status'', Lit (JStr ''password changed'')),
                           (''username'', Lit un)]) 201, db'))"
  using assms by (simp add: update_password_def)

lemma dict_get_obj:
  "dict_get (JObj kvs) k = Inr (case map_of kvs k of None \<Rightarrow> JNull | Some v \<Rightarrow> v)"
  by (simp add: dict_get_def)

text \<open>
  C7. For a POST /update-password request whose body is a JSON object: the answer is
  400 when username or newPassword is missing or empty; when both are non-empty
  strings the answer is 401 exactly when the username does not exist, and otherwise
  201 with status and username, the credential being replaced by the new salt and
  digest; a failure of the store that is no ValueError, a body that is no object and a
  body that is no JSON are answered 500.
\<close>

theorem update_password_statuses:
  "(dict_get (JObj kvs) ''username'' = Inr un \<and> dict_get (JObj kvs) ''newPassword'' = Inr np \<and>
      (\<not> truthy un \<or> \<not> truthy np) \<longrightarrow>
      update_password upd db (Json (JObj kvs)) =
        (Response (error_body ''Invalid input, both username and new password are required'')
           400, db))
   \<and> (map_of kvs ''username'' = Some (JStr u) \<and> map_of kvs ''newPassword'' = Some (JStr p) \<and>
        u \<noteq> [] \<and> p \<noteq> [] \<longrightarrow>
        (users u = None \<longrightarrow>
           update_password (\<lambda>us. on_strings (User_update_password H s us)) users (Json (JObj kvs)) =
             (Response (Dict [(''error'', FStr ''user '' (JStr u) '' does not exist'')]) 401, users))
        \<and> (users u \<noteq> None \<longrightarrow>
           update_password (\<lambda>us. on_strings (User_update_password H s us)) users (Json (JObj kvs)) =
             (Response (Dict [(''status'', Lit (JStr ''password changed'')),
                              (''username'', Lit (JStr u))]) 201,
              users(u \<mapsto> (s, H p s))))
        \<and> (status (fst (update_password (\<lambda>us. on_strings (User_update_password H s us)) users
                          (Json (JObj kvs)))) = 401 \<longleftrightarrow> users u = None))
   \<and> (dict_get (JObj kvs) ''username'' = Inr un \<and> dict_get (JObj kvs) ''newPassword'' = Inr np \<and>
        truthy un \<and> truthy np \<and> upd db un np = Inl e \<and> exn_cls e \<noteq> ValueError \<longrightarrow>
        update_password upd db (Json (JObj kvs)) = (error_500 e, db))
   \<and> ((\<forall>kvs'. data \<noteq> JObj kvs') \<longrightarrow> status (fst (update_password upd db (Json data))) = 500)
   \<and> status (fst (update_password upd db (BadRequest m))) = 500"
proof (intro conjI impI)
  assume "dict_get (JObj kvs) ''username'' = Inr un \<and>
    dict_get (JObj kvs) ''newPassword'' = Inr np \<and> (\<not> truthy un \<or> \<not> truthy np)"
  then show "update_password upd db (Json (JObj kvs)) =
        (Response (error_body ''Invalid input, both username and new password are required'')
           400, db)"
    by (auto simp: update_password_fields)
next
  assume a: "map_of kvs ''username'' = Some (JStr u) \<and> map_of kvs ''newPassword'' = Some (JStr p) \<and>
        u \<noteq> [] \<and> p \<noteq> []"
  then have g: "dict_get (JObj kvs) ''username'' = Inr (JStr u)"
    "dict_get (JObj kvs) ''newPassword'' = Inr (JStr p)"
    by (simp_all add: dict_get_obj)
  note f = update_password_fields [OF g]
  {
    assume "users u = None"
    then show "update_password (\<lambda>us. on_strings (User_update_password H s us)) users
                 (Json (JObj kvs)) =
             (Response (Dict [(''error'', FStr ''user '' (JStr u) '' does not exist'')]) 401, users)"
      using a by (simp add: f on_strings_def User_update_password_def)
  }
  {
    assume "users u \<noteq> None"
    then show "update_password (\<lambda>us. on_strings (User_update_password H s us)) users
                 (Json (JObj kvs)) =
             (Response (Dict [(''status'', Lit (JStr ''password changed'')),
                              (''username'', Lit (JStr u))]) 201,
              users(u \<mapsto> (s, H p s)))"
      using a by (auto simp: f on_strings_def User_update_password_def)
  }
  show "status (fst (update_password (\<lambda>us. on_strings (User_update_password H s us)) users
                          (Json (JObj kvs)))) = 401 \<longleftrightarrow> users u = None"
    using a by (auto simp: f on_strings_def User_update_password_def split: option.splits)
next
  assume "dict_get (JObj kvs) ''username'' = Inr un \<and> dict_get (JObj kvs) ''newPassword'' = Inr np \<and>
        truthy un \<and> truthy np \<and> upd db un np = Inl e \<and> exn_cls e \<noteq> ValueError"
  then show "update_password upd db (Json (JObj kvs)) = (error_500 e, db)"
    by (simp add: update_password_fields)
next
  assume "\<forall>kvs'. data \<noteq> JObj kvs'"
  then show "status (fst (update_password upd db (Json data))) = 500"
    by (cases data) (simp_all add: update_password_def dict_get_def error_500_def)
next
  show "status (fst (update_password upd db (BadRequest m))) = 500"
    by (simp add: update_password_def error_500_def)
qed

theorem update_password_statuses_witness:
  "update_password (\<lambda>us. on_strings (User_update_password (\<lambda>p s. (s, p)) (8::nat) us))
     [''alice'' \<mapsto> (7, (7, ''pw1''))]
     (Json (JObj [(''username'', JStr ''alice''), (''newPassword'', JStr ''pw2'')])) =
     (Response (Dict [(''status'', Lit (JStr ''password changed'')),
                      (''username'', Lit (JStr ''alice''))]) 201,
      [''alice'' \<mapsto> (8, (8, ''pw2''))])
   \<and> update_password (\<lambda>us. on_strings (User_update_password (\<lambda>p s. (s, p)) (8::nat) us))
     [''alice'' \<mapsto> (7, (7, ''pw1''))]
     (Json (JObj [(''username'', JStr ''ghost''), (''newPassword'', JStr ''pw2'')])) =
     (Response (Dict [(''error'', FStr ''user '' (JStr ''ghost'') '' does not exist'')]) 401,
      [''alice'' \<mapsto> (7, (7, ''pw1''))])"
proof -
  let ?H = "\<lambda>(p::string) (s::nat). (s, p)"
  let ?us = "[''alice'' \<mapsto> (7::nat, (7::nat, ''pw1''))]"
  have a: "update_password (\<lambda>us. on_strings (User_update_password ?H 8 us)) ?us
     (Json (JObj [(''username'', JStr ''alice''), (''newPassword'', JStr ''pw2'')])) =
     (Response (Dict [(''status'', Lit (JStr ''password changed'')),
                      (''username'', Lit (JStr ''alice''))]) 201,
      ?us(''alice'' \<mapsto> (8, ?H ''pw2'' 8)))"
    using update_password_statuses
      [of "[(''username'', JStr ''alice''), (''newPassword'', JStr ''pw2'')]"
          "JStr ''alice''" "JStr ''pw2''" "\<lambda>us u p. Inr us" ?us
          "''alice''" "''pw2''" ?us ?H 8 "Exn OtherError []" JNull "[]"]
    by simp
  have b: "update_password (\<lambda>us. on_strings (User_update_password ?H 8 us)) ?us
     (Json (JObj [(''username'', JStr ''ghost''), (''newPassword'', JStr ''pw2'')])) =
     (Response (Dict [(''error'', FStr ''user '' (JStr ''ghost'') '' does not exist'')]) 401, ?us)"
    using update_password_statuses
      [of "[(''username'', JStr ''ghost''), (''newPassword'', JStr ''pw2'')]"
          "JStr ''ghost''" "JStr ''pw2''" "\<lambda>us u p. Inr us" ?us
          "''ghost''" "''pw2''" ?us ?H 8 "Exn OtherError []" JNull "[]"]
    by simp
  show ?thesis using a b by simp
qed

subsection \<open>Validation at /create-account and /login\<close>

text \<open>
  C10. Validation differs between the two routes. For a JSON object body,
  POST /create-account answers 400 whenever username or password is absent, null or the
  empty string. POST /login answers 400 when one of the two keys is absent and never
  when both are present, whatever their values: it then calls \<^verbatim>\<open>User.check_password\<close>
  with them, also for an empty-string password, and answers 200 when the check returns
  true, 401 when it returns false, and builds no response when it raises.
\<close>

theorem validation_asymmetry:
  "(map_of kvs ''username'' \<in> {None, Some JNull, Some (JStr [])} \<or>
    map_of kvs ''password'' \<in> {None, Some JNull, Some (JStr [])} \<longrightarrow>
      create_user cu db (Json (JObj kvs)) =
        (Response (error_body ''Invalid input, both username and password are required'') 400, db))
   \<and> (map_of kvs ''username'' = None \<or> map_of kvs ''password'' = None \<longrightarrow>
        login chk (Json (JObj kvs)) =
          Inr (Response (error_body ''Invalid input, both username and password are required'')
                 400))
   \<and> (map_of kvs ''username'' = Some u \<and> map_of kvs ''password'' = Some p \<longrightarrow>
        (chk u p = Inr True \<longrightarrow>
           login chk (Json (JObj kvs)) =
             Inr (Response (Dict [(''message'', FStr ''User '' u '' logged in successfully.'')])
                    200))
        \<and> (chk u p = Inr False \<longrightarrow>
           login chk (Json (JObj kvs)) =
             Inr (Response (error_body ''Invalid username or password'') 401))
        \<and> (\<forall>e. chk u p = Inl e \<longrightarrow>
           login chk (Json (JObj kvs)) =
             Inl (Exn TypeError ''Object of type set is not JSON serializable''))
        \<and> (\<forall>r. login chk (Json (JObj kvs)) = Inr r \<longrightarrow> status r \<noteq> 400))"
proof (intro conjI impI allI)
  assume "map_of kvs ''username'' \<in> {None, Some JNull, Some (JStr [])} \<or>
    map_of kvs ''password'' \<in> {None, Some JNull, Some (JStr [])}"
  then show "create_user cu db (Json (JObj kvs)) =
        (Response (error_body ''Invalid input, both username and password are required'') 400, db)"
    by (auto simp: create_user_def dict_get_def split: option.splits)
next
  assume a: "map_of kvs ''username'' = None \<or> map_of kvs ''password'' = None"
  then have "''username'' \<notin> fst ` set kvs \<or> ''password'' \<notin> fst ` set kvs"
    by (metis map_of_eq_None_iff)
  then show "login chk (Json (JObj kvs)) =
          Inr (Response (error_body ''Invalid input, both username and password are required'')
                 400)"
    by (auto simp: login_def py_contains_def error_body_def)
next
  assume a: "map_of kvs ''username'' = Some u \<and> map_of kvs ''password'' = Some p"
  then have l: "login chk (Json (JObj kvs)) = login_checked chk u p"
    by (simp add: login_on_object)
  {
    assume "chk u p = Inr True"
    then show "login chk (Json (JObj kvs)) =
             Inr (Response (Dict [(''message'', FStr ''User '' u '' logged in successfully.'')])
                    200)"
      by (simp add: l login_checked_def)
  }
  {
    assume "chk u p = Inr False"
    then show "login chk (Json (JObj kvs)) =
             Inr (Response (error_body ''Invalid username or password'') 401)"
      by (simp add: l login_checked_def error_body_def)
  }
  {
    fix e assume "chk u p = Inl e"
    then show "login chk (Json (JObj kvs)) =
             Inl (Exn TypeError ''Object of type set is not JSON serializable'')"
      by (simp add: l login_checked_def)
  }
  {
    fix r assume "login chk (Json (JObj kvs)) = Inr r"
    then show "status r \<noteq> 400"
      unfolding l
      by (auto simp: login_checked_def error_body_def split: sum.splits if_splits)
  }
qed

theorem validation_asymmetry_witness:
  "create_user (\<lambda>db u p. Inr db) (0::nat)
     (Json (JObj [(''username'', JStr ''alice''), (''password'', JStr [])])) =
     (Response (error_body ''Invalid input, both username and password are required'') 400, 0)
   \<and> login (\<lambda>u p. Inr (p = JStr ''pw1''))
       (Json (JObj [(''username'', JStr ''alice''), (''password'', JStr [])])) =
       Inr (Response (error_body ''Invalid username or password'') 401)
   \<and> login (\<lambda>u p. Inr (p = JStr []))
       (Json (JObj [(''username'', JStr ''alice''), (''password'', JStr [])])) =
       Inr (Response
              (Dict [(''message'', FStr ''User '' (JStr ''alice'') '' logged in successfully.'')])
              200)"
proof -
  let ?kvs = "[(''username'', JStr ''alice''), (''password'', JStr [])]"
  have a: "create_user (\<lambda>db u p. Inr db) (0::nat) (Json (JObj ?kvs)) =
     (Response (error_body ''Invalid input, both username and password are required'') 400, 0)"
    using validation_asymmetry
      [of ?kvs "\<lambda>db u p. Inr db" "0::nat" "\<lambda>u p. Inr (p = JStr ''pw1'')" "JStr ''alice''"
          "JStr []"]
    by simp
  have b: "login (\<lambda>u p. Inr (p = JStr ''pw1'')) (Json (JObj ?kvs)) =
       Inr (Response (error_body ''Invalid username or password'') 401)"
    using validation_asymmetry
      [of ?kvs "\<lambda>db u p. Inr db" "0::nat" "\<lambda>u p. Inr (p = JStr ''pw1'')" "JStr ''alice''"
          "JStr []"]
    by simp
  have c: "login (\<lambda>u p. Inr (p = JStr [])) (Json (JObj ?kvs)) =
       Inr (Response
              (Dict [(''message'', FStr ''User '' (JStr ''alice'') '' logged in successfully.'')])
              200)"
    using validation_asymmetry
      [of ?kvs "\<lambda>db u p. Inr db" "0::nat" "\<lambda>u p. Inr (p = JStr [])" "JStr ''alice''"
          "JStr []"]
    by simp
  show ?thesis using a b c by simp
qed

subsection \<open>Account store: creating a user and checking the password\<close>



subsection \<open>POST /add-game\<close>

lemma add_game_try_id:
  assumes "dict_get (JObj kvs) ''id'' = Inr v" and "truthy v" and "py_int v = Inr n"
    and "g n = Inr info"
  shows "add_game_try g cr db (Json (JObj kvs)) =
     (if info = JObj []
      then Inr (Response (error_body (''id '' @ str_of_int n @
                                      '' does not correspond to a game'')) 404, db)
      else case py_index info ''id'' of
        Inl e \<Rightarrow> Inl e
      | Inr gid \<Rightarrow>
          (case py_index info ''name'' of
             Inl e \<Rightarrow> Inl e
           | Inr name \<Rightarrow>
               (case py_index info ''price'' of
                  Inl e \<Rightarrow> Inl e
                | Inr price \<Rightarrow>
                    (case cr db gid name price of
                       Inl e \<Rightarrow> Inl e
                     | Inr db' \<Rightarrow>
                         Inr (Response (Dict [(''status'', Lit (JStr ''game added'')),
                                              (''game'', Lit name)]) 201, db')))))"
  using assms by (simp add: add_game_try_def)

lemma py_index_error_class:
  "py_index d k = Inl e \<Longrightarrow> exn_cls e \<noteq> ValueError"
  by (cases d) (auto simp: py_index_def split: option.splits)

lemma add_game_nonempty_not_404:
  assumes "dict_get (JObj kvs) ''id'' = Inr v" and "truthy v" and "py_int v = Inr n"
    and "g n = Inr info" and "info \<noteq> JObj []"
  shows "status (fst (add_game g cr db (Json (JObj kvs)))) \<noteq> 404"
proof -
  note t = add_game_try_id [where g = g and cr = cr and db = db, OF assms(1-4)]
  show ?thesis
  proof (cases "py_index info ''id''")
    case (Inl e)
    then show ?thesis using t assms(5) py_index_error_class [OF Inl]
      by (simp add: add_game_def error_500_def)
  next
    case i: (Inr gi)
    show ?thesis
    proof (cases "py_index info ''name''")
      case (Inl e)
      then show ?thesis using t i assms(5) py_index_error_class [OF Inl]
        by (simp add: add_game_def error_500_def)
    next
      case nm: (Inr name)
      show ?thesis
      proof (cases "py_index info ''price''")
        case (Inl e)
        then show ?thesis using t i nm assms(5) py_index_error_class [OF Inl]
          by (simp add: add_game_def error_500_def)
      next
        case pr: (Inr price)
        show ?thesis
          using t i nm pr assms(5)
          by (cases "cr db gi name price") (simp_all add: add_game_def error_500_def)
      qed
    qed
  qed
qed

text \<open>
  C6, amended. For a POST /add-game request whose id is given and converts to an integer
  and whose catalog lookup returns: the answer is 404 exactly when the lookup result is
  the empty dict; otherwise the handler hands the id, name and price of the catalog
  entry to the cart store, and when the store accepts the game it answers 201 with
  status and game name, the row with that id, name and price being added to the cart;
  when the store rejects the game, nothing is persisted and the answer is 400 (for a
  ValueError) or 500.
\<close>

theorem add_game_statuses:
  assumes "dict_get (JObj kvs) ''id'' = Inr v" and "truthy v" and "py_int v = Inr n"
    and "get_game_info n = Inr info"
  shows "(info = JObj [] \<longrightarrow>
            add_game get_game_info cr db (Json (JObj kvs)) =
              (Response (error_body (''id '' @ str_of_int n @
                                     '' does not correspond to a game'')) 404, db))
     \<and> (status (fst (add_game get_game_info cr db (Json (JObj kvs)))) = 404 \<longleftrightarrow> info = JObj [])
     \<and> (info = JObj ikvs \<and> ikvs \<noteq> [] \<and> map_of ikvs ''id'' = Some gi \<and>
          map_of ikvs ''name'' = Some nm \<and> map_of ikvs ''price'' = Some pr \<longrightarrow>
          (cr db gi nm pr = Inr db' \<longrightarrow>
             add_game get_game_info cr db (Json (JObj kvs)) =
               (Response (Dict [(''status'', Lit (JStr ''game added'')), (''game'', Lit nm)]) 201,
                db'))
          \<and> (cr db gi nm pr = Inl e \<longrightarrow>
             add_game get_game_info cr db (Json (JObj kvs)) =
               (if exn_cls e = ValueError then Response (error_body (str_exn e)) 400
                else error_500 e, db)))
     \<and> (Games_create_game_py c (JNum (PInt i)) (JStr gn) (JNum gp) = Inr c' \<longrightarrow>
          c' = c @ [\<lparr>game_id = i, game_name = gn, game_price = gp\<rparr>])"
proof (intro conjI impI)
  note t = add_game_try_id [where g = get_game_info and cr = cr and db = db, OF assms]
  {
    assume "info = JObj []"
    then show "add_game get_game_info cr db (Json (JObj kvs)) =
              (Response (error_body (''id '' @ str_of_int n @
                                     '' does not correspond to a game'')) 404, db)"
      using t by (simp add: add_game_def)
  }
  show "status (fst (add_game get_game_info cr db (Json (JObj kvs)))) = 404 \<longleftrightarrow> info = JObj []"
    using add_game_nonempty_not_404 [where g = get_game_info and cr = cr and db = db, OF assms] t
    by (cases "info = JObj []") (simp_all add: add_game_def)
  {
    assume a: "info = JObj ikvs \<and> ikvs \<noteq> [] \<and> map_of ikvs ''id'' = Some gi \<and>
          map_of ikvs ''name'' = Some nm \<and> map_of ikvs ''price'' = Some pr"
    {
      assume "cr db gi nm pr = Inr db'"
      then show "add_game get_game_info cr db (Json (JObj kvs)) =
               (Response (Dict [(''status'', Lit (JStr ''game added'')), (''game'', Lit nm)]) 201,
                db')"
        using a t by (simp add: add_game_def py_index_def)
    }
    {
      assume "cr db gi nm pr = Inl e"
      then show "add_game get_game_info cr db (Json (JObj kvs)) =
               (if exn_cls e = ValueError then Response (error_body (str_exn e)) 400
                else error_500 e, db)"
        using a t by (simp add: add_game_def py_index_def)
    }
  }
  {
    assume "Games_create_game_py c (JNum (PInt i)) (JStr gn) (JNum gp) = Inr c'"
    then show "c' = c @ [\<lparr>game_id = i, game_name = gn, game_price = gp\<rparr>]"
      by (auto simp: Games_create_game_py_def Games_create_game_def split: if_splits)
  }
qed

lemma str_of_nat_digit: "n < 10 \<Longrightarrow> str_of_nat n = [''0123456789'' ! n]"
  by (simp add: str_of_nat.simps)

lemma str_of_int_11: "str_of_int 11 = ''11''"
  by (simp add: str_of_int_def str_of_nat.simps [of 11] str_of_nat_digit)

theorem add_game_statuses_witness:
  "add_game
     (\<lambda>n. if n = 10
          then Inr (JObj [(''id'', JNum (PInt 10)), (''name'', JStr ''Chess''),
                          (''price'', JNum (PFloat (Fin (19 / 2))))])
          else Inr (JObj []))
     Games_create_game_py [] (Json (JObj [(''id'', JNum (PInt 10))])) =
     (Response (Dict [(''status'', Lit (JStr ''game added'')), (''game'', Lit (JStr ''Chess''))]) 201,
      [\<lparr>game_id = 10, game_name = ''Chess'', game_price = PFloat (Fin (19 / 2))\<rparr>])
   \<and> add_game
     (\<lambda>n. if n = 10
          then Inr (JObj [(''id'', JNum (PInt 10)), (''name'', JStr ''Chess''),
                          (''price'', JNum (PFloat (Fin (19 / 2))))])
          else Inr (JObj []))
     Games_create_game_py [] (Json (JObj [(''id'', JNum (PInt 11))])) =
     (Response (error_body ''id 11 does not correspond to a game'') 404, [])"
proof -
  let ?chess = "JObj [(''id'', JNum (PInt 10)), (''name'', JStr ''Chess''),
                      (''price'', JNum (PFloat (Fin (19 / 2))))]"
  let ?g = "\<lambda>n::int. if n = 10 then Inr ?chess else (Inr (JObj []) :: exn + json)"
  let ?row = "\<lparr>game_id = 10, game_name = ''Chess'', game_price = PFloat (Fin (19 / 2))\<rparr>"
  have d10: "dict_get (JObj [(''id'', JNum (PInt 10))]) ''id'' = Inr (JNum (PInt 10))"
    by (simp add: dict_get_def)
  have d11: "dict_get (JObj [(''id'', JNum (PInt 11))]) ''id'' = Inr (JNum (PInt 11))"
    by (simp add: dict_get_def)
  have cr: "Games_create_game_py [] (JNum (PInt 10)) (JStr ''Chess'')
              (JNum (PFloat (Fin (19 / 2)))) = Inr [?row]"
    by (simp add: Games_create_game_py_def Games_create_game_def)
  have a: "add_game ?g Games_create_game_py [] (Json (JObj [(''id'', JNum (PInt 10))])) =
     (Response (Dict [(''status'', Lit (JStr ''game added'')), (''game'', Lit (JStr ''Chess''))]) 201,
      [?row])"
    using add_game_statuses
      [where get_game_info = ?g and info = ?chess and cr = Games_create_game_py and db = "[]"
         and ikvs = "[(''id'', JNum (PInt 10)), (''name'', JStr ''Chess''),
                      (''price'', JNum (PFloat (Fin (19 / 2))))]"
         and gi = "JNum (PInt 10)" and nm = "JStr ''Chess''"
         and pr = "JNum (PFloat (Fin (19 / 2)))" and db' = "[?row]"
         and e = "Exn OtherError []" and c = "[]" and i = 10 and gn = "''Chess''"
         and gp = "PFloat (Fin (19 / 2))" and c' = "[?row]", OF d10]
      cr
    by simp
  have b: "add_game ?g Games_create_game_py [] (Json (JObj [(''id'', JNum (PInt 11))])) =
     (Response (error_body ''id 11 does not correspond to a game'') 404, [])"
    using add_game_statuses
      [where get_game_info = ?g and info = "JObj []" and cr = Games_create_game_py and db = "[]"
         and ikvs = "[]" and gi = JNull and nm = JNull and pr = JNull and db' = "[]"
         and e = "Exn OtherError []" and c = "[]" and i = 10 and gn = "''Chess''"
         and gp = "PFloat (Fin (19 / 2))" and c' = "[?row]", OF d11]
    by (simp add: str_of_int_11)
  show ?thesis using a b by simp
qed

text \<open>
  C6, as stated, fails when the same game is added twice: the catalog lookup for id 10
  is not empty, yet the cart store rejects the duplicate, nothing is persisted and the
  answer is neither 404 nor 201.
\<close>

theorem add_game_persists_counterexample:
  "add_game
     (\<lambda>n. Inr (JObj [(''id'', JNum (PInt 10)), (''name'', JStr ''Chess''),
                     (''price'', JNum (PFloat (Fin (19 / 2))))]))
     Games_create_game_py
     [\<lparr>game_id = 10, game_name = ''Chess'', game_price = PFloat (Fin (19 / 2))\<rparr>]
     (Json (JObj [(''id'', JNum (PInt 10))])) =
     (Response (error_body ''DuplicateGame'') 500,
      [\<lparr>game_id = 10, game_name = ''Chess'', game_price = PFloat (Fin (19 / 2))\<rparr>])"
  by (simp add: add_game_def add_game_try_def dict_get_def py_index_def Games_create_game_py_def
      Games_create_game_def error_500_def)

subsection \<open>DELETE /delete-game\<close>

lemma delete_game_id:
  assumes "dict_get (JObj kvs) ''id'' = Inr v" and "truthy v" and "py_int v = Inr n"
  shows "delete_game del db (Json (JObj kvs)) =
     (case del db n of
        Inl e \<Rightarrow>
          (if exn_cls e = ValueError
           then (if str_exn e = ''Game with id '' @ str_of_int n @ '' not found''
                 then (Response (error_body (str_exn e)) 404, db)
                 else (Response (error_body (str_exn e)) 400, db))
           else (error_500 e, db))
      | Inr db' \<Rightarrow> (Response (Dict [(''status'', Lit (JStr ''game deleted''))]) 200, db'))"
  using assms by (simp add: delete_game_def)

lemma delete_game_404_iff:
  "status (fst (delete_game del db (Json (JObj kvs)))) = 404 \<longleftrightarrow>
     (\<exists>v n e. map_of kvs ''id'' = Some v \<and> truthy v \<and> py_int v = Inr n \<and> del db n = Inl e \<and>
        exn_cls e = ValueError \<and> str_exn e = ''Game with id '' @ str_of_int n @ '' not found'')"
proof (cases "map_of kvs ''id''")
  case None
  then show ?thesis by (simp add: delete_game_def dict_get_def error_body_def)
next
  case (Some v)
  then have g: "dict_get (JObj kvs) ''id'' = Inr v" by (simp add: dict_get_def)
  show ?thesis
  proof (cases "truthy v")
    case False
    with g Some show ?thesis by (simp add: delete_game_def)
  next
    case True
    show ?thesis
    proof (cases "py_int v")
      case (Inl e)
      with g True Some show ?thesis
        by (simp add: delete_game_def error_500_def)
    next
      case (Inr n)
      with True g Some show ?thesis
        by (cases "del db n")
          (auto simp: delete_game_id [OF g True Inr] error_500_def)
    qed
  qed
qed

text \<open>
  C4, amended. For a DELETE /delete-game request whose body is a JSON object: the answer
  is 400 when the id is missing or falsy (null, false, 0, 0.0, an empty string, list or
  dict) and when \<^verbatim>\<open>int\<close> refuses it with a ValueError; for an id that converts to the
  integer \<open>n\<close> it is 200 with status "game deleted" and the store's new state when the
  store deletes the game, 404 exactly when the store fails with a ValueError whose text
  is "Game with id n not found", and 400 for any other ValueError of the store; every
  other failure is answered 500. With the cart store of the specification: 200 and the
  game removed when a game with id \<open>n\<close> is in the cart; otherwise 404 when the store's
  failure has exactly that text and 400 when it has another.
\<close>

theorem delete_game_statuses:
  "(dict_get (JObj kvs) ''id'' = Inr v \<and> \<not> truthy v \<longrightarrow>
      delete_game del db (Json (JObj kvs)) =
        (Response (error_body ''An id must be specified.'') 400, db))
   \<and> (dict_get (JObj kvs) ''id'' = Inr v \<and> truthy v \<and> py_int v = Inl e \<longrightarrow>
        delete_game del db (Json (JObj kvs)) =
          (Response (error_body (str_exn e)) (if exn_cls e = ValueError then 400 else 500), db))
   \<and> (dict_get (JObj kvs) ''id'' = Inr v \<and> truthy v \<and> py_int v = Inr n \<longrightarrow>
        (del db n = Inr db' \<longrightarrow>
           delete_game del db (Json (JObj kvs)) =
             (Response (Dict [(''status'', Lit (JStr ''game deleted''))]) 200, db'))
        \<and> (del db n = Inl e \<and> exn_cls e = ValueError \<longrightarrow>
           delete_game del db (Json (JObj kvs)) =
             (Response (error_body (str_exn e))
                (if str_exn e = ''Game with id '' @ str_of_int n @ '' not found''
                 then 404 else 400), db))
        \<and> (del db n = Inl e \<and> exn_cls e \<noteq> ValueError \<longrightarrow>
           delete_game del db (Json (JObj kvs)) = (Response (error_body (str_exn e)) 500, db)))
   \<and> (status (fst (delete_game del db (Json (JObj kvs)))) = 404 \<longleftrightarrow>
        (\<exists>w k x. map_of kvs ''id'' = Some w \<and> truthy w \<and> py_int w = Inr k \<and> del db k = Inl x \<and>
           exn_cls x = ValueError \<and>
           str_exn x = ''Game with id '' @ str_of_int k @ '' not found''))
   \<and> (dict_get data ''id'' = Inl e \<longrightarrow>
        delete_game del db (Json data) = (Response (error_body (str_exn e)) 500, db))
   \<and> delete_game del db (BadRequest m) = (Response (error_body m) 500, db)
   \<and> (dict_get (JObj kvs) ''id'' = Inr v \<and> truthy v \<and> py_int v = Inr n \<longrightarrow>
        (n \<in> game_id ` set c \<longrightarrow>
           delete_game (Games_delete_game not_found) c (Json (JObj kvs)) =
             (Response (Dict [(''status'', Lit (JStr ''game deleted''))]) 200,
              filter (\<lambda>g. game_id g \<noteq> n) c))
        \<and> (n \<notin> game_id ` set c \<longrightarrow>
           delete_game (Games_delete_game not_found) c (Json (JObj kvs)) =
             (Response (error_body (not_found n))
                (if not_found n = ''Game with id '' @ str_of_int n @ '' not found''
                 then 404 else 400), c)))"
proof (intro conjI impI)
  assume "dict_get (JObj kvs) ''id'' = Inr v \<and> \<not> truthy v"
  then show "delete_game del db (Json (JObj kvs)) =
        (Response (error_body ''An id must be specified.'') 400, db)"
    by (simp add: delete_game_def)
next
  assume "dict_get (JObj kvs) ''id'' = Inr v \<and> truthy v \<and> py_int v = Inl e"
  then show "delete_game del db (Json (JObj kvs)) =
          (Response (error_body (str_exn e)) (if exn_cls e = ValueError then 400 else 500), db)"
    by (simp add: delete_game_def error_500_def)
next
  assume a: "dict_get (JObj kvs) ''id'' = Inr v \<and> truthy v \<and> py_int v = Inr n"
  then have i: "dict_get (JObj kvs) ''id'' = Inr v" "truthy v" "py_int v = Inr n" by simp_all
  note d = delete_game_id [OF i]
  {
    assume "del db n = Inr db'"
    then show "delete_game del db (Json (JObj kvs)) =
             (Response (Dict [(''status'', Lit (JStr ''game deleted''))]) 200, db')"
      by (simp add: d)
  }
  {
    assume "del db n = Inl e \<and> exn_cls e = ValueError"
    then show "delete_game del db (Json (JObj kvs)) =
             (Response (error_body (str_exn e))
                (if str_exn e = ''Game with id '' @ str_of_int n @ '' not found''
                 then 404 else 400), db)"
      by (simp add: d)
  }
  {
    assume "del db n = Inl e \<and> exn_cls e \<noteq> ValueError"
    then show "delete_game del db (Json (JObj kvs)) =
        (Response (error_body (str_exn e)) 500, db)"
      by (simp add: d error_500_def)
  }
  {
    assume "n \<in> game_id ` set c"
    then show "delete_game (Games_delete_game not_found) c (Json (JObj kvs)) =
             (Response (Dict [(''status'', Lit (JStr ''game deleted''))]) 200,
              filter (\<lambda>g. game_id g \<noteq> n) c)"
      by (simp add: d Games_delete_game_def)
  }
  {
    assume "n \<notin> game_id ` set c"
    then show "delete_game (Games_delete_game not_found) c (Json (JObj kvs)) =
             (Response (error_body (not_found n))
                (if not_found n = ''Game with id '' @ str_of_int n @ '' not found''
                 then 404 else 400), c)"
      by (simp add: d Games_delete_game_def)
  }
next
  show "status (fst (delete_game del db (Json (JObj kvs)))) = 404 \<longleftrightarrow>
        (\<exists>w k x. map_of kvs ''id'' = Some w \<and> truthy w \<and> py_int w = Inr k \<and> del db k = Inl x \<and>
           exn_cls x = ValueError \<and>
           str_exn x = ''Game with id '' @ str_of_int k @ '' not found'')"
    by (rule delete_game_404_iff)
next
  assume "dict_get data ''id'' = Inl e"
  then show "delete_game del db (Json data) = (Response (error_body (str_exn e)) 500, db)"
    by (simp add: delete_game_def error_500_def)
next
  show "delete_game del db (BadRequest m) = (Response (error_body m) 500, db)"
    by (simp add: delete_game_def error_500_def)
qed

lemma str_of_int_10: "str_of_int 10 = ''10''"
  by (simp add: str_of_int_def str_of_nat.simps [of 10] str_of_nat_digit)

lemma int_of_str_abc: "int_of_str ''abc'' = Inl (invalid_literal ''abc'')"
  by (simp add: int_of_str_def is_int_space_def is_digit_or_underscore_def digit_of_def)

lemma invalid_literal_abc:
  "invalid_literal ''abc'' =
     Exn ValueError (''invalid literal for int() with base 10: '' @ [CHR 0x27] @ ''abc'' @ [CHR 0x27])"
  by (simp add: invalid_literal_def py_repr_def repr_char_def is_printable_def Let_def)

theorem delete_game_statuses_witness:
  "delete_game (Games_delete_game (\<lambda>i. ''Game with id '' @ str_of_int i @ '' not found''))
     [\<lparr>game_id = 10, game_name = ''Chess'', game_price = PFloat (Fin (19 / 2))\<rparr>]
     (Json (JObj [(''id'', JNum (PInt 10))])) =
     (Response (Dict [(''status'', Lit (JStr ''game deleted''))]) 200, [])
   \<and> delete_game (Games_delete_game (\<lambda>i. ''Game with id '' @ str_of_int i @ '' not found''))
     [] (Json (JObj [(''id'', JNum (PInt 10))])) =
     (Response (error_body ''Game with id 10 not found'') 404, [])
   \<and> delete_game (Games_delete_game (\<lambda>i. ''GameNotFound''))
     [] (Json (JObj [(''id'', JNum (PInt 10))])) =
     (Response (error_body ''GameNotFound'') 400, [])"
proof -
  let ?kvs = "[(''id'', JNum (PInt 10))]"
  let ?nf = "\<lambda>i. ''Game with id '' @ str_of_int i @ '' not found''"
  let ?c = "[\<lparr>game_id = 10, game_name = ''Chess'', game_price = PFloat (Fin (19 / 2))\<rparr>]"
  have a: "delete_game (Games_delete_game ?nf) ?c (Json (JObj ?kvs)) =
     (Response (Dict [(''status'', Lit (JStr ''game deleted''))]) 200, [])"
    using delete_game_statuses
      [where kvs = ?kvs and v = "JNum (PInt 10)" and n = 10 and c = ?c and not_found = ?nf
         and del = "Games_delete_game ?nf" and db = ?c and db' = "[]"
         and e = "Exn OtherError []" and data = JNull and m = "[]"]
    by (simp add: dict_get_def)
  have b: "delete_game (Games_delete_game ?nf) [] (Json (JObj ?kvs)) =
     (Response (error_body ''Game with id 10 not found'') 404, [])"
    using delete_game_statuses
      [where kvs = ?kvs and v = "JNum (PInt 10)" and n = 10 and c = "[]" and not_found = ?nf
         and del = "Games_delete_game ?nf" and db = "[]" and db' = "[]"
         and e = "Exn OtherError []" and data = JNull and m = "[]"]
    by (simp add: dict_get_def str_of_int_10)
  have c: "delete_game (Games_delete_game (\<lambda>i. ''GameNotFound'')) [] (Json (JObj ?kvs)) =
     (Response (error_body ''GameNotFound'') 400, [])"
    using delete_game_statuses
      [where kvs = ?kvs and v = "JNum (PInt 10)" and n = 10 and c = "[]"
         and not_found = "\<lambda>i. ''GameNotFound''"
         and del = "Games_delete_game (\<lambda>i. ''GameNotFound'')" and db = "[]" and db' = "[]"
         and e = "Exn OtherError []" and data = JNull and m = "[]"]
    by (simp add: dict_get_def)
  show ?thesis using a b c by simp
qed

text \<open>
  C4, as stated, fails: with the ids 0 and "abc" the id field is not missing and no game
  with that id exists, yet the answer is 400 and not 404.
\<close>

theorem delete_game_404_counterexample:
  "delete_game (Games_delete_game (\<lambda>i. ''Game with id '' @ str_of_int i @ '' not found''))
     [] (Json (JObj [(''id'', JNum (PInt 0))])) =
     (Response (error_body ''An id must be specified.'') 400, [])
   \<and> delete_game (Games_delete_game (\<lambda>i. ''Game with id '' @ str_of_int i @ '' not found''))
     [] (Json (JObj [(''id'', JStr ''abc'')])) =
     (Response
        (error_body (''invalid literal for int() with base 10: '' @ [CHR 0x27] @ ''abc'' @
                     [CHR 0x27])) 400, [])"
  by (simp add: delete_game_def dict_get_def int_of_str_abc invalid_literal_abc)

subsection \<open>The id guard of /add-game and /delete-game\<close>

lemma delete_game_changes_only:
  assumes "snd (delete_game del db (Json (JObj kvs))) \<noteq> db"
  shows "\<exists>w k. map_of kvs ''id'' = Some w \<and> truthy w \<and> py_int w = Inr k \<and>
           del db k = Inr (snd (delete_game del db (Json (JObj kvs))))"
proof (cases "map_of kvs ''id''")
  case None
  with assms show ?thesis by (simp add: delete_game_def dict_get_def)
next
  case (Some w)
  then have g: "dict_get (JObj kvs) ''id'' = Inr w" by (simp add: dict_get_def)
  show ?thesis
  proof (cases "truthy w")
    case False
    with assms g show ?thesis by (simp add: delete_game_def)
  next
    case True
    show ?thesis
    proof (cases "py_int w")
      case (Inl e)
      with assms g True show ?thesis by (simp add: delete_game_def split: if_splits)
    next
      case (Inr k)
      with assms True g Some show ?thesis
        by (cases "del db k") (simp_all add: delete_game_id [OF g True Inr] split: if_splits)
    qed
  qed
qed

lemma add_game_changes_only:
  assumes "snd (add_game g cr db (Json (JObj kvs))) \<noteq> db"
  shows "\<exists>w k. map_of kvs ''id'' = Some w \<and> truthy w \<and> py_int w = Inr k"
proof (cases "map_of kvs ''id''")
  case None
  with assms show ?thesis by (simp add: add_game_def add_game_try_def dict_get_def)
next
  case (Some w)
  then have d: "dict_get (JObj kvs) ''id'' = Inr w" by (simp add: dict_get_def)
  show ?thesis
  proof (cases "truthy w")
    case False
    with assms d show ?thesis by (simp add: add_game_def add_game_try_def)
  next
    case True
    show ?thesis
    proof (cases "py_int w")
      case (Inl e)
      with assms d True show ?thesis
        by (simp add: add_game_def add_game_try_def split: if_splits)
    next
      case (Inr k)
      with Some True show ?thesis by blast
    qed
  qed
qed


lemma add_game_snd:
  "snd (add_game g cr db req) = db \<or>
     (\<exists>gi nm pr. cr db gi nm pr = Inr (snd (add_game g cr db req)))"
proof (cases "add_game_try g cr db req")
  case (Inl e)
  then show ?thesis by (simp add: add_game_def)
next
  case (Inr r)
  then have s: "snd (add_game g cr db req) = snd r" by (simp add: add_game_def)
  from Inr have "snd r = db \<or> (\<exists>gi nm pr. cr db gi nm pr = Inr (snd r))"
    by (auto simp: add_game_try_def split: request.splits sum.splits if_splits)
  then show ?thesis by (simp add: s)
qed

lemma delete_game_snd:
  "snd (delete_game del db req) = db \<or> (\<exists>n. del db n = Inr (snd (delete_game del db req)))"
  by (auto simp: delete_game_def split: request.splits sum.splits if_splits)

lemma create_game_py_positive:
  assumes "Games_create_game_py c gi nm pr = Inr c'" and "\<forall>x \<in> set c. 0 < game_id x"
  shows "\<forall>x \<in> set c'. 0 < game_id x"
proof -
  from assms(1) obtain i n p where "Games_create_game c i n p = Inr c'"
    by (auto simp: Games_create_game_py_def split: json.splits pynum.splits)
  then have "0 < i \<and> c' = c @ [\<lparr>game_id = i, game_name = n, game_price = p\<rparr>]"
    by (auto simp: Games_create_game_def split: if_splits)
  with assms(2) show ?thesis by auto
qed

lemma add_game_positive:
  assumes "\<forall>x \<in> set c. 0 < game_id x"
  shows "\<forall>x \<in> set (snd (add_game g Games_create_game_py c req)). 0 < game_id x"
  using add_game_snd [of g Games_create_game_py c req] assms create_game_py_positive
  by metis

lemma delete_game_subset:
  "set (snd (delete_game (Games_delete_game nf) c req)) \<subseteq> set c"
proof -
  have "snd (delete_game (Games_delete_game nf) c req) = c \<or>
     (\<exists>n. Games_delete_game nf c n = Inr (snd (delete_game (Games_delete_game nf) c req)))"
    by (rule delete_game_snd)
  then show ?thesis
  proof
    assume "snd (delete_game (Games_delete_game nf) c req) = c"
    then show ?thesis by simp
  next
    assume "\<exists>n. Games_delete_game nf c n = Inr (snd (delete_game (Games_delete_game nf) c req))"
    then obtain n where
      "Games_delete_game nf c n = Inr (snd (delete_game (Games_delete_game nf) c req))" by blast
    then have "snd (delete_game (Games_delete_game nf) c req) = filter (\<lambda>g. game_id g \<noteq> n) c"
      by (simp add: Games_delete_game_def split: if_splits)
    then show ?thesis by simp
  qed
qed

lemma run_calls_positive:
  "\<forall>x \<in> set c. 0 < game_id x \<Longrightarrow> \<forall>x \<in> set (run_calls nf c calls). 0 < game_id x"
proof (induction calls arbitrary: c)
  case Nil
  then show ?case by simp
next
  case (Cons a calls)
  show ?case
  proof (cases a)
    case (AddGame g req)
    have "\<forall>x \<in> set (snd (add_game g Games_create_game_py c req)). 0 < game_id x"
      using Cons.prems by (rule add_game_positive)
    then show ?thesis using Cons.IH AddGame by simp
  next
    case (DeleteGame req)
    have "\<forall>x \<in> set (snd (delete_game (Games_delete_game nf) c req)). 0 < game_id x"
      using Cons.prems delete_game_subset [of nf c req] by blast
    then show ?thesis using Cons.IH DeleteGame by simp
  qed
qed

text \<open>
  C9. POST /add-game and DELETE /delete-game treat a falsy id, such as 0 or the empty
  string, as missing and answer 400, whatever the catalog and the store are; the cart
  changes only for a truthy id that converts to an integer; and whatever sequence of
  add-game and delete-game requests is run from the empty cart, with the cart store of
  the specification, the cart never holds a game with id 0: no request adds one, and no
  request deletes one.
\<close>

theorem falsy_id_is_missing:
  "(dict_get (JObj kvs) ''id'' = Inr v \<and> \<not> truthy v \<longrightarrow>
      add_game g cr db (Json (JObj kvs)) =
        (Response (error_body ''An id must be specified.'') 400, db)
      \<and> delete_game del db (Json (JObj kvs)) =
        (Response (error_body ''An id must be specified.'') 400, db))
   \<and> (snd (delete_game del db (Json (JObj kvs))) \<noteq> db \<longrightarrow>
        (\<exists>w k. map_of kvs ''id'' = Some w \<and> truthy w \<and> py_int w = Inr k \<and>
           del db k = Inr (snd (delete_game del db (Json (JObj kvs))))))
   \<and> (snd (add_game g cr db (Json (JObj kvs))) \<noteq> db \<longrightarrow>
        (\<exists>w k. map_of kvs ''id'' = Some w \<and> truthy w \<and> py_int w = Inr k))
   \<and> 0 \<notin> game_id ` set (run_calls not_found [] calls)
   \<and> 0 \<notin> game_id ` set (snd (add_game g Games_create_game_py
                                  (run_calls not_found [] calls) req))
   \<and> (\<forall>x \<in> set (run_calls not_found [] calls).
        x \<notin> set (snd (delete_game (Games_delete_game not_found)
                          (run_calls not_found [] calls) req)) \<longrightarrow> game_id x \<noteq> 0)"
proof (intro conjI impI)
  assume a: "dict_get (JObj kvs) ''id'' = Inr v \<and> \<not> truthy v"
  then show "add_game g cr db (Json (JObj kvs)) =
        (Response (error_body ''An id must be specified.'') 400, db)"
    by (simp add: add_game_def add_game_try_def)
  from a show "delete_game del db (Json (JObj kvs)) =
        (Response (error_body ''An id must be specified.'') 400, db)"
    by (simp add: delete_game_def)
next
  assume "snd (delete_game del db (Json (JObj kvs))) \<noteq> db"
  then show "\<exists>w k. map_of kvs ''id'' = Some w \<and> truthy w \<and> py_int w = Inr k \<and>
           del db k = Inr (snd (delete_game del db (Json (JObj kvs))))"
    by (rule delete_game_changes_only)
next
  assume "snd (add_game g cr db (Json (JObj kvs))) \<noteq> db"
  then show "\<exists>w k. map_of kvs ''id'' = Some w \<and> truthy w \<and> py_int w = Inr k"
    by (rule add_game_changes_only)
next
  have p: "\<forall>x \<in> set (run_calls not_found [] calls). 0 < game_id x"
    by (rule run_calls_positive) simp
  then show z: "0 \<notin> game_id ` set (run_calls not_found [] calls)" by auto
  from add_game_positive [OF p]
  show "0 \<notin> game_id ` set (snd (add_game g Games_create_game_py
                                  (run_calls not_found [] calls) req))"
    by (metis (no_types, lifting) imageE less_irrefl)
  from p show "\<forall>x \<in> set (run_calls not_found [] calls).
              x \<notin> set (snd (delete_game (Games_delete_game not_found)
                                (run_calls not_found [] calls) req)) \<longrightarrow> game_id x \<noteq> 0"
    by auto
qed

lemma int_of_str_zero: "int_of_str ''0'' = Inr 0"
  by (simp add: int_of_str_def is_int_space_def is_digit_or_underscore_def digit_of_def)

theorem falsy_id_is_missing_witness:
  "delete_game (Games_delete_game (\<lambda>i. ''Game with id '' @ str_of_int i @ '' not found'')) []
     (Json (JObj [(''id'', JNum (PInt 0))])) =
     (Response (error_body ''An id must be specified.'') 400, [])
   \<and> add_game (\<lambda>n. Inr (JObj [(''id'', JNum (PInt n)), (''name'', JStr ''Zero''),
                                  (''price'', JNum (PInt 1))]))
       Games_create_game_py [] (Json (JObj [(''id'', JNum (PInt 0))])) =
     (Response (error_body ''An id must be specified.'') 400, [])
   \<and> add_game (\<lambda>n. Inr (JObj [(''id'', JNum (PInt n)), (''name'', JStr ''Zero''),
                                  (''price'', JNum (PInt 1))]))
       Games_create_game_py [] (Json (JObj [(''id'', JStr ''0'')])) =
     (Response (error_body ''InvalidInput'') 400, [])
   \<and> 0 \<notin> game_id ` set
         (run_calls (\<lambda>i. ''Game with id '' @ str_of_int i @ '' not found'') []
            [AddGame (\<lambda>n. Inr (JObj [(''id'', JNum (PInt n)), (''name'', JStr ''Zero''),
                                        (''price'', JNum (PInt 1))]))
               (Json (JObj [(''id'', JStr ''0'')])),
             DeleteGame (Json (JObj [(''id'', JStr ''0'')]))])"
proof -
  let ?nf = "\<lambda>i. ''Game with id '' @ str_of_int i @ '' not found''"
  let ?g = "\<lambda>n. (Inr (JObj [(''id'', JNum (PInt n)), (''name'', JStr ''Zero''),
                               (''price'', JNum (PInt 1))]) :: exn + json)"
  let ?calls = "[AddGame ?g (Json (JObj [(''id'', JStr ''0'')])),
                 DeleteGame (Json (JObj [(''id'', JStr ''0'')]))]"
  note t = falsy_id_is_missing
    [where kvs = "[(''id'', JNum (PInt 0))]" and v = "JNum (PInt 0)" and g = ?g
       and cr = Games_create_game_py and db = "[]" and del = "Games_delete_game ?nf"
       and not_found = ?nf and calls = ?calls and req = "Json (JObj [(''id'', JStr ''0'')])"]
  have a: "delete_game (Games_delete_game ?nf) [] (Json (JObj [(''id'', JNum (PInt 0))])) =
     (Response (error_body ''An id must be specified.'') 400, [])
   \<and> add_game ?g Games_create_game_py [] (Json (JObj [(''id'', JNum (PInt 0))])) =
     (Response (error_body ''An id must be specified.'') 400, [])"
    using t by (simp add: dict_get_def)
  have b: "0 \<notin> game_id ` set (run_calls ?nf [] ?calls)"
    using t by blast
  have c: "add_game ?g Games_create_game_py [] (Json (JObj [(''id'', JStr ''0'')])) =
     (Response (error_body ''InvalidInput'') 400, [])"
    by (simp add: add_game_def add_game_try_def dict_get_def int_of_str_zero py_index_def
        Games_create_game_py_def Games_create_game_def)
  show ?thesis using a b c by blast
qed

subsection \<open>The body of a 500 answer\<close>

lemma dict_get_error_class: "dict_get d k = Inl e \<Longrightarrow> exn_cls e \<noteq> ValueError"
  by (cases d) (auto simp: dict_get_def)

text \<open>
  C3, amended. Every handler other than login answers each failure that reaches its
  generic \<^verbatim>\<open>except\<close> branch with status 500 and the body \<^verbatim>\<open>{"error": str(e)}\<close>, the text
  of the exception that was caught, on every such path: a body that is no JSON, a body
  that is no object, a failure of \<^verbatim>\<open>int\<close> that is no ValueError, a failure of the
  catalog or of the store, a catalog entry without id, name or price, a game without a
  price and a price that cannot be summed.
\<close>

theorem error_500_carries_exception_text:
  "create_user cu db (BadRequest m) = (Response (error_body m) 500, db)
   \<and> (dict_get data ''username'' = Inl e \<longrightarrow>
        create_user cu db (Json data) = (Response (error_body (str_exn e)) 500, db))
   \<and> (dict_get (JObj kvs) ''username'' = Inr u \<and> dict_get (JObj kvs) ''password'' = Inr p \<and>
        truthy u \<and> truthy p \<and> cu db u p = Inl e \<longrightarrow>
        create_user cu db (Json (JObj kvs)) = (Response (error_body (str_exn e)) 500, db))
   \<and> update_password upd db (BadRequest m) = (Response (error_body m) 500, db)
   \<and> (dict_get data ''username'' = Inl e \<longrightarrow>
        update_password upd db (Json data) = (Response (error_body (str_exn e)) 500, db))
   \<and> (dict_get (JObj kvs) ''username'' = Inr u \<and> dict_get (JObj kvs) ''newPassword'' = Inr p \<and>
        truthy u \<and> truthy p \<and> upd db u p = Inl e \<and> exn_cls e \<noteq> ValueError \<longrightarrow>
        update_password upd db (Json (JObj kvs)) = (Response (error_body (str_exn e)) 500, db))
   \<and> (search_for_games kw = Inl e \<longrightarrow>
        search_games search_for_games kw = Response (error_body (str_exn e)) 500)
   \<and> add_game g cr db (BadRequest m) = (Response (error_body m) 500, db)
   \<and> (dict_get data ''id'' = Inl e \<longrightarrow>
        add_game g cr db (Json data) = (Response (error_body (str_exn e)) 500, db))
   \<and> (dict_get (JObj kvs) ''id'' = Inr v \<and> truthy v \<and> py_int v = Inl e \<and>
        exn_cls e \<noteq> ValueError \<longrightarrow>
        add_game g cr db (Json (JObj kvs)) = (Response (error_body (str_exn e)) 500, db))
   \<and> (dict_get (JObj kvs) ''id'' = Inr v \<and> truthy v \<and> py_int v = Inr n \<and> g n = Inl e \<and>
        exn_cls e \<noteq> ValueError \<longrightarrow>
        add_game g cr db (Json (JObj kvs)) = (Response (error_body (str_exn e)) 500, db))
   \<and> (dict_get (JObj kvs) ''id'' = Inr v \<and> truthy v \<and> py_int v = Inr n \<and> g n = Inr info \<and>
        info \<noteq> JObj [] \<and> py_index info ''id'' = Inl e \<longrightarrow>
        add_game g cr db (Json (JObj kvs)) = (Response (error_body (str_exn e)) 500, db))
   \<and> (dict_get (JObj kvs) ''id'' = Inr v \<and> truthy v \<and> py_int v = Inr n \<and> g n = Inr info \<and>
        info \<noteq> JObj [] \<and> py_index info ''id'' = Inr gi \<and> py_index info ''name'' = Inl e \<longrightarrow>
        add_game g cr db (Json (JObj kvs)) = (Response (error_body (str_exn e)) 500, db))
   \<and> (dict_get (JObj kvs) ''id'' = Inr v \<and> truthy v \<and> py_int v = Inr n \<and> g n = Inr info \<and>
        info \<noteq> JObj [] \<and> py_index info ''id'' = Inr gi \<and> py_index info ''name'' = Inr nm \<and>
        py_index info ''price'' = Inl e \<longrightarrow>
        add_game g cr db (Json (JObj kvs)) = (Response (error_body (str_exn e)) 500, db))
   \<and> (dict_get (JObj kvs) ''id'' = Inr v \<and> truthy v \<and> py_int v = Inr n \<and> g n = Inr info \<and>
        info \<noteq> JObj [] \<and> py_index info ''id'' = Inr gi \<and> py_index info ''name'' = Inr nm \<and>
        py_index info ''price'' = Inr pr \<and> cr db gi nm pr = Inl e \<and>
        exn_cls e \<noteq> ValueError \<longrightarrow>
        add_game g cr db (Json (JObj kvs)) = (Response (error_body (str_exn e)) 500, db))
   \<and> delete_game del db (BadRequest m) = (Response (error_body m) 500, db)
   \<and> (dict_get data ''id'' = Inl e \<longrightarrow>
        delete_game del db (Json data) = (Response (error_body (str_exn e)) 500, db))
   \<and> (dict_get (JObj kvs) ''id'' = Inr v \<and> truthy v \<and> py_int v = Inl e \<and>
        exn_cls e \<noteq> ValueError \<longrightarrow>
        delete_game del db (Json (JObj kvs)) = (Response (error_body (str_exn e)) 500, db))
   \<and> (dict_get (JObj kvs) ''id'' = Inr v \<and> truthy v \<and> py_int v = Inr n \<and> del db n = Inl e \<and>
        exn_cls e \<noteq> ValueError \<longrightarrow>
        delete_game del db (Json (JObj kvs)) = (Response (error_body (str_exn e)) 500, db))
   \<and> get_games (Inl e) = Response (error_body (str_exn e)) 500
   \<and> get_total_price fsum (Inl e) = Response (error_body (str_exn e)) 500
   \<and> (prices_of games = Inl e \<longrightarrow>
        get_total_price fsum (Inr games) = Response (error_body (str_exn e)) 500)
   \<and> (prices_of games = Inr ps \<and> py_sum fsum ps = Inl e \<longrightarrow>
        get_total_price fsum (Inr games) = Response (error_body (str_exn e)) 500)"
proof -
  have c1: "create_user cu db (BadRequest m) = (Response (error_body m) 500, db)"
    by (simp add: create_user_def error_500_def)
  have c2: "create_user cu db (Json data) = (Response (error_body (str_exn e)) 500, db)"
    if "dict_get data ''username'' = Inl e"
    using that by (simp add: create_user_def error_500_def)
  have c3: "create_user cu db (Json (JObj kvs)) = (Response (error_body (str_exn e)) 500, db)"
    if "dict_get (JObj kvs) ''username'' = Inr u \<and> dict_get (JObj kvs) ''password'' = Inr p \<and>
        truthy u \<and> truthy p \<and> cu db u p = Inl e"
    using that by (simp add: create_user_def error_500_def)
  have u1: "update_password upd db (BadRequest m) = (Response (error_body m) 500, db)"
    by (simp add: update_password_def error_500_def)
  have u2: "update_password upd db (Json data) = (Response (error_body (str_exn e)) 500, db)"
    if "dict_get data ''username'' = Inl e"
    using that by (simp add: update_password_def error_500_def)
  have u3: "update_password upd db (Json (JObj kvs)) =
      (Response (error_body (str_exn e)) 500, db)"
    if "dict_get (JObj kvs) ''username'' = Inr u \<and> dict_get (JObj kvs) ''newPassword'' = Inr p \<and>
        truthy u \<and> truthy p \<and> upd db u p = Inl e \<and> exn_cls e \<noteq> ValueError"
    using that by (simp add: update_password_def error_500_def)
  have s1: "search_games search_for_games kw = Response (error_body (str_exn e)) 500"
    if "search_for_games kw = Inl e"
    using that by (simp add: search_games_def error_500_def)
  have a1: "add_game g cr db (BadRequest m) = (Response (error_body m) 500, db)"
    by (simp add: add_game_def add_game_try_def error_500_def)
  have a2: "add_game g cr db (Json data) = (Response (error_body (str_exn e)) 500, db)"
    if "dict_get data ''id'' = Inl e"
    using that dict_get_error_class [OF that]
    by (simp add: add_game_def add_game_try_def error_500_def)
  have a3: "add_game g cr db (Json (JObj kvs)) = (Response (error_body (str_exn e)) 500, db)"
    if "dict_get (JObj kvs) ''id'' = Inr v \<and> truthy v \<and> py_int v = Inl e \<and>
        exn_cls e \<noteq> ValueError"
    using that by (simp add: add_game_def add_game_try_def error_500_def)
  have a4: "add_game g cr db (Json (JObj kvs)) = (Response (error_body (str_exn e)) 500, db)"
    if "dict_get (JObj kvs) ''id'' = Inr v \<and> truthy v \<and> py_int v = Inr n \<and> g n = Inl e \<and>
        exn_cls e \<noteq> ValueError"
    using that by (simp add: add_game_def add_game_try_def error_500_def)
  have a5: "add_game g cr db (Json (JObj kvs)) = (Response (error_body (str_exn e)) 500, db)"
    if "dict_get (JObj kvs) ''id'' = Inr v \<and> truthy v \<and> py_int v = Inr n \<and> g n = Inr info \<and>
        info \<noteq> JObj [] \<and> py_index info ''id'' = Inl e"
    using that py_index_error_class [of info "''id''" e]
    by (simp add: add_game_def add_game_try_def error_500_def)
  have a6: "add_game g cr db (Json (JObj kvs)) = (Response (error_body (str_exn e)) 500, db)"
    if "dict_get (JObj kvs) ''id'' = Inr v \<and> truthy v \<and> py_int v = Inr n \<and> g n = Inr info \<and>
        info \<noteq> JObj [] \<and> py_index info ''id'' = Inr gi \<and> py_index info ''name'' = Inl e"
    using that py_index_error_class [of info "''name''" e]
    by (simp add: add_game_def add_game_try_def error_500_def)
  have a7: "add_game g cr db (Json (JObj kvs)) = (Response (error_body (str_exn e)) 500, db)"
    if "dict_get (JObj kvs) ''id'' = Inr v \<and> truthy v \<and> py_int v = Inr n \<and> g n = Inr info \<and>
        info \<noteq> JObj [] \<and> py_index info ''id'' = Inr gi \<and> py_index info ''name'' = Inr nm \<and>
        py_index info ''price'' = Inl e"
    using that py_index_error_class [of info "''price''" e]
    by (simp add: add_game_def add_game_try_def error_500_def)
  have a8: "add_game g cr db (Json (JObj kvs)) = (Response (error_body (str_exn e)) 500, db)"
    if "dict_get (JObj kvs) ''id'' = Inr v \<and> truthy v \<and> py_int v = Inr n \<and> g n = Inr info \<and>
        info \<noteq> JObj [] \<and> py_index info ''id'' = Inr gi \<and> py_index info ''name'' = Inr nm \<and>
        py_index info ''price'' = Inr pr \<and> cr db gi nm pr = Inl e \<and>
        exn_cls e \<noteq> ValueError"
    using that by (simp add: add_game_def add_game_try_def error_500_def)
  have d1: "delete_game del db (BadRequest m) = (Response (error_body m) 500, db)"
    by (simp add: delete_game_def error_500_def)
  have d2: "delete_game del db (Json data) = (Response (error_body (str_exn e)) 500, db)"
    if "dict_get data ''id'' = Inl e"
    using that by (simp add: delete_game_def error_500_def)
  have d3: "delete_game del db (Json (JObj kvs)) = (Response (error_body (str_exn e)) 500, db)"
    if "dict_get (JObj kvs) ''id'' = Inr v \<and> truthy v \<and> py_int v = Inl e \<and>
        exn_cls e \<noteq> ValueError"
    using that by (simp add: delete_game_def error_500_def)
  have d4: "delete_game del db (Json (JObj kvs)) = (Response (error_body (str_exn e)) 500, db)"
    if "dict_get (JObj kvs) ''id'' = Inr v \<and> truthy v \<and> py_int v = Inr n \<and> del db n = Inl e \<and>
        exn_cls e \<noteq> ValueError"
    using that by (simp add: delete_game_def error_500_def)
  have g1: "get_games (Inl e) = Response (error_body (str_exn e)) 500"
    by (simp add: get_games_def error_500_def)
  have t1: "get_total_price fsum (Inl e) = Response (error_body (str_exn e)) 500"
    by (simp add: get_total_price_def error_500_def)
  have t2: "get_total_price fsum (Inr games) = Response (error_body (str_exn e)) 500"
    if "prices_of games = Inl e"
    using that by (simp add: get_total_price_def error_500_def)
  have t3: "get_total_price fsum (Inr games) = Response (error_body (str_exn e)) 500"
    if "prices_of games = Inr ps \<and> py_sum fsum ps = Inl e"
    using that by (simp add: get_total_price_def error_500_def)
  show ?thesis
    using c1 c2 c3 u1 u2 u3 s1 a1 a2 a3 a4 a5 a6 a7 a8 d1 d2 d3 d4 g1 t1 t2 t3
    by (intro conjI impI) assumption+
qed

theorem error_500_carries_exception_text_witness:
  "create_user (\<lambda>db u p. Inl (Exn OtherError ''UNIQUE constraint failed: users.username''))
     (0::nat) (Json (JObj [(''username'', JStr ''alice''), (''password'', JStr ''pw1'')])) =
     (Response (error_body ''UNIQUE constraint failed: users.username'') 500, 0)
   \<and> delete_game (\<lambda>db n. Inr db) (0::nat) (BadRequest ''400 Bad Request'') =
       (Response (error_body ''400 Bad Request'') 500, 0)
   \<and> get_total_price (\<lambda>xs. Fin 0) (Inr [JObj [(''id'', JNum (PInt 10))]]) =
       Response (error_body ([CHR 0x27] @ ''price'' @ [CHR 0x27])) 500"
proof -
  let ?e = "Exn OtherError ''UNIQUE constraint failed: users.username''"
  let ?k = "Exn KeyError ([CHR 0x27] @ ''price'' @ [CHR 0x27])"
  let ?kvs = "[(''username'', JStr ''alice''), (''password'', JStr ''pw1'')]"
  have a: "create_user (\<lambda>db u p. Inl ?e) (0::nat) (Json (JObj ?kvs)) =
     (Response (error_body ''UNIQUE constraint failed: users.username'') 500, 0)
   \<and> delete_game (\<lambda>db n. Inr db) (0::nat) (BadRequest ''400 Bad Request'') =
       (Response (error_body ''400 Bad Request'') 500, 0)"
    using error_500_carries_exception_text
      [where cu = "\<lambda>db u p. Inl ?e" and db = "0::nat" and m = "''400 Bad Request''"
         and data = JNull and e = ?e and kvs = ?kvs and u = "JStr ''alice''"
         and p = "JStr ''pw1''" and upd = "\<lambda>db u p. Inr db"
         and search_for_games = "\<lambda>k. Inr JNull" and kw = "[]" and g = "\<lambda>n. Inr JNull"
         and cr = "\<lambda>db i n p. Inr db" and v = JNull and n = 0 and info = JNull
         and gi = JNull and nm = JNull and pr = JNull and del = "\<lambda>db n. Inr db"
         and fsum = "\<lambda>xs. Fin 0" and games = "[]" and ps = "[]"]
    by (simp add: dict_get_def)
  have b: "get_total_price (\<lambda>xs. Fin 0) (Inr [JObj [(''id'', JNum (PInt 10))]]) =
       Response (error_body ([CHR 0x27] @ ''price'' @ [CHR 0x27])) 500"
    using error_500_carries_exception_text
      [where cu = "\<lambda>db u p. Inr db" and db = "0::nat" and m = "[]"
         and data = JNull and e = ?k and kvs = "[]" and u = JNull
         and p = JNull and upd = "\<lambda>db u p. Inr db"
         and search_for_games = "\<lambda>k. Inr JNull" and kw = "[]" and g = "\<lambda>n. Inr JNull"
         and cr = "\<lambda>db i n p. Inr db" and v = JNull and n = 0 and info = JNull
         and gi = JNull and nm = JNull and pr = JNull and del = "\<lambda>db n. Inr db"
         and fsum = "\<lambda>xs. Fin 0" and games = "[JObj [(''id'', JNum (PInt 10))]]" and ps = "[]"]
    by (simp add: py_index_def)
  show ?thesis using a b by simp
qed

text \<open>
  C3, as stated, fails: a POST /create-account request whose body is a JSON list is
  answered 500 with the text of the AttributeError, and a failure of the store is
  answered 500 with the text of the store's exception, in create_user as in delete_game.
\<close>

theorem generic_500_message_counterexample:
  "create_user (\<lambda>db u p. Inr db) (0::nat) (Json (JList [])) =
     (Response
        (Dict [(''error'',
                Lit (JStr ([CHR 0x27] @ ''list'' @ [CHR 0x27] @ '' object has no attribute '' @
                           [CHR 0x27] @ ''get'' @ [CHR 0x27])))]) 500, 0)
   \<and> create_user (\<lambda>db u p. Inl (Exn OtherError ''UNIQUE constraint failed: users.username''))
     (0::nat) (Json (JObj [(''username'', JStr ''alice''), (''password'', JStr ''pw1'')])) =
     (Response (Dict [(''error'', Lit (JStr ''UNIQUE constraint failed: users.username''))]) 500, 0)
   \<and> delete_game (\<lambda>db n. Inl (Exn OtherError ''database is locked'')) (0::nat)
     (Json (JObj [(''id'', JNum (PInt 10))])) =
     (Response (Dict [(''error'', Lit (JStr ''database is locked''))]) 500, 0)"
  by (simp add: create_user_def delete_game_def dict_get_def error_500_def error_body_def)

end
